theory Spec2Isabelle
  imports Main
begin

text \<open>
  A model of the message delivery core of the WhatsApp backend: the receipt handlers
  (updateStatus.js), the message ledger, the send pipeline and the send-media endpoint
  (messages.js), the connection registry and the close handling of the supervisor
  (qrcode.js), and the scheduler sweep (schedule.js). Asynchronous functions are
  modelled by their sequential effect on an explicit state; what the code obtains from
  outside (the transport's answers, the random delay, the placeholder data, the result
  of a connection attempt, the files) is a parameter.
\<close>

section \<open>The durable store\<close>

text \<open>
  The relational store is a record of its three tables, each a list of rows in storage
  order. Times are milliseconds on one clock (\<open>NOW()\<close> is passed in); \<open>NULL\<close> is
  \<open>None\<close>. The flag \<open>reachable\<close> says whether queries succeed: when it is false every
  query raises, and the \<open>catch\<close> blocks of the source decide what happens.
  \<open>affectedRows\<close> of an \<open>UPDATE\<close> is the number of rows its \<open>WHERE\<close> clause
  matches.
\<close>

type_synonym timestamp = nat

record media_message =
  msg_id :: nat
  instance_id :: "string option"
  recipient :: string
  message :: "string option"
  media :: "string option"
  caption :: "string option"
  schedule_time :: "timestamp option"
  message_status :: string
  whatsapp_message_id :: "string option"
  created_at :: timestamp

record report_time_row =
  rt_instance_id :: string
  rt_recipient :: string
  rt_whatsapp_message_id :: string
  initiated_time :: "timestamp option"
  sent_time :: "timestamp option"
  delivered_time :: "timestamp option"
  read_time :: "timestamp option"
  failed_time :: "timestamp option"
  rt_created_at :: timestamp

record subscription_row =
  sub_id :: nat
  sub_instance_id :: string
  date_purchased :: timestamp
  date_expiry :: "timestamp option"
  num_messages :: int
  sub_created_at :: timestamp

record store =
  media_messages :: "media_message list"
  report_time :: "report_time_row list"
  subscription :: "subscription_row list"
  reachable :: bool

datatype db_error = QueryFailed | InvalidStatus string

datatype log_entry = LogInfo string | LogWarn string | LogError string

section \<open>Receipt reconciliation (updateStatus.js)\<close>

text \<open>\<open>Object.values(MESSAGE_STATUS)\<close>, in declaration order.\<close>

definition MESSAGE_STATUS :: "string list" where
  "MESSAGE_STATUS = [''pending'', ''sent'', ''delivered'', ''read'', ''failed'']"

text \<open>
  \<open>getDatabaseId\<close>: the first row of
  \<open>SELECT id FROM media_messages WHERE instance_id = ? AND whatsapp_message_id = ?\<close>;
  a failing query is caught and reported as not found.
\<close>

definition getDatabaseId ::
  "store \<Rightarrow> string \<Rightarrow> string \<Rightarrow> (bool \<times> nat option) \<times> log_entry list" where
  "getDatabaseId st instanceId messageId =
     (if \<not> reachable st then ((False, None), [LogError ''Failed to get database ID:''])
      else
        (case filter (\<lambda>r. instance_id r = Some instanceId
                          \<and> whatsapp_message_id r = Some messageId) (media_messages st) of
           [] \<Rightarrow> ((False, None), [LogInfo ''Database lookup result:''])
         | r # _ \<Rightarrow> ((True, Some (msg_id r)), [LogInfo ''Database lookup result:''])))"

text \<open>
  \<open>UPDATE media_messages SET message_status = ? WHERE id = ?\<close>. A \<open>NULL\<close> id matches
  no row.
\<close>

definition set_status_where_id :: "nat option \<Rightarrow> string \<Rightarrow> media_message list \<Rightarrow> media_message list" where
  "set_status_where_id i s rows =
     map (\<lambda>r. if Some (msg_id r) = i then r\<lparr>message_status := s\<rparr> else r) rows"

definition rows_where_id :: "nat option \<Rightarrow> media_message list \<Rightarrow> media_message list" where
  "rows_where_id i rows = filter (\<lambda>r. Some (msg_id r) = i) rows"

text \<open>
  \<open>updateMessageStatusInDB\<close> of updateStatus.js: an unknown status defaults to
  \<open>sent\<close>; the row is overwritten whatever its current status; a failing query is
  logged and rethrown.
\<close>

definition updateMessageStatusInDB ::
  "store \<Rightarrow> nat option \<Rightarrow> string \<Rightarrow> (db_error + store) \<times> log_entry list" where
  "updateMessageStatusInDB st messageId newStatus =
     (let invalid = (newStatus \<notin> set MESSAGE_STATUS);
          lg0 = (if invalid then [LogWarn ''Invalid message status, defaulting to sent''] else []);
          newStatus' = (if invalid then ''sent'' else newStatus)
      in if \<not> reachable st
         then (Inl QueryFailed, lg0 @ [LogError ''Failed to update message status in DB:''])
         else (Inr (st\<lparr>media_messages := set_status_where_id messageId newStatus' (media_messages st)\<rparr>),
               lg0 @ [if rows_where_id messageId (media_messages st) \<noteq> []
                      then LogInfo ''Message status updated successfully''
                      else LogWarn ''No message found with ID'']))"

text \<open>
  The transport's status code is a JavaScript value compared with \<open>===\<close> in a
  \<open>switch\<close>: a number, a string, or \<open>null\<close>. \<open>undefined\<close> is the absent field.
\<close>

datatype js_status = SNum int | SStr string | SNull

definition mapStatusCode :: "js_status \<Rightarrow> string" where
  "mapStatusCode c =
     (if c = SStr ''PENDING'' \<or> c = SNum 1 then ''pending''
      else if c = SNum 3 then ''delivered''
      else if c = SNum 4 then ''read''
      else if c = SNum (- 1) then ''failed''
      else ''sent'')"

record wa_key =
  key_id :: string
  remoteJid :: string

record wa_update =
  msg_key :: "wa_key option"
  msg_update :: "js_status option option"
  msg_receipt :: "string option"

text \<open>
  \<open>msg_update\<close> is \<open>update.update\<close>: \<open>None\<close> when the object is missing,
  \<open>Some None\<close> when it has no \<open>status\<close> field, \<open>Some (Some c)\<close> otherwise.
  \<open>msg_receipt\<close> is \<open>update.receipt\<close>, reduced to its \<open>type\<close> field.

  One element of a \<open>messages.update\<close> batch. The result is the store (or the error
  that escapes the handler) and the lines logged.
\<close>

definition processMessageUpdate ::
  "store \<Rightarrow> string \<Rightarrow> wa_update \<Rightarrow> (db_error + store) \<times> log_entry list" where
  "processMessageUpdate st instanceId u =
     (case msg_key u of
        None \<Rightarrow> (Inr st, [])
      | Some k \<Rightarrow>
        (case msg_update u of
           None \<Rightarrow> (Inr st, [])
         | Some None \<Rightarrow> (Inr st, [LogInfo ''Processing message update:''])
         | Some (Some code) \<Rightarrow>
             (let lg0 = [LogInfo ''Processing message update:'', LogInfo ''Processing status code:''];
                  ((found, dbId), lg1) = getDatabaseId st instanceId (key_id k)
              in if \<not> found
                 then (Inr st, lg0 @ lg1 @ [LogWarn ''Message not found in database:''])
                 else
                   (case updateMessageStatusInDB st dbId (mapStatusCode code) of
                      (Inl e, lg2) \<Rightarrow> (Inl e, lg0 @ lg1 @ lg2)
                    | (Inr st', lg2) \<Rightarrow>
                        (Inr st', lg0 @ lg1 @ lg2 @ [LogInfo ''Message status updated successfully''])))))"

fun forEachUpdate ::
  "(store \<Rightarrow> string \<Rightarrow> wa_update \<Rightarrow> (db_error + store) \<times> log_entry list)
     \<Rightarrow> store \<Rightarrow> string \<Rightarrow> wa_update list \<Rightarrow> (db_error + store) \<times> log_entry list" where
  "forEachUpdate f st instanceId [] = (Inr st, [])"
| "forEachUpdate f st instanceId (u # us) =
     (case f st instanceId u of
        (Inl e, lg) \<Rightarrow> (Inl e, lg)
      | (Inr st', lg) \<Rightarrow>
          (case forEachUpdate f st' instanceId us of (r, lg') \<Rightarrow> (r, lg @ lg')))"

definition onMessagesUpdate ::
  "store \<Rightarrow> string \<Rightarrow> wa_update list \<Rightarrow> (db_error + store) \<times> log_entry list" where
  "onMessagesUpdate st instanceId updates =
     (case forEachUpdate processMessageUpdate st instanceId updates of
        (r, lg) \<Rightarrow> (r, LogInfo ''Received messages.update:'' # lg))"

text \<open>One element of a \<open>receipt.update\<close> batch.\<close>

definition processReceiptUpdate ::
  "store \<Rightarrow> string \<Rightarrow> wa_update \<Rightarrow> (db_error + store) \<times> log_entry list" where
  "processReceiptUpdate st instanceId u =
     (case msg_key u of
        None \<Rightarrow> (Inr st, [])
      | Some k \<Rightarrow>
          (let ((found, dbId), lg1) = getDatabaseId st instanceId (key_id k)
           in if \<not> found
              then (Inr st, lg1 @ [LogWarn ''Message not found for receipt update:''])
              else
                (case msg_receipt u of
                   None \<Rightarrow> (Inr st, lg1)
                 | Some ty \<Rightarrow>
                     (case updateMessageStatusInDB st dbId
                             (if ty = ''read'' then ''read'' else ''delivered'') of
                        (r, lg2) \<Rightarrow> (r, lg1 @ lg2)))))"

definition onReceiptUpdate ::
  "store \<Rightarrow> string \<Rightarrow> wa_update list \<Rightarrow> (db_error + store) \<times> log_entry list" where
  "onReceiptUpdate st instanceId updates =
     (case forEachUpdate processReceiptUpdate st instanceId updates of
        (r, lg) \<Rightarrow> (r, LogInfo ''Received receipt.update:'' # lg))"

datatype wa_event = MessagesUpdate "wa_update list" | ReceiptUpdate "wa_update list"

text \<open>
  \<open>setupMessageStatusTracking\<close> registers the two handlers unless the socket or the
  instance id is missing; the result is the dispatcher of the registered handlers.
\<close>

definition setupMessageStatusTracking ::
  "'sock option \<Rightarrow> string
     \<Rightarrow> (store \<Rightarrow> wa_event \<Rightarrow> (db_error + store) \<times> log_entry list) option" where
  "setupMessageStatusTracking sock instanceId =
     (if sock = None \<or> instanceId = []
      then None
      else Some (\<lambda>st ev. case ev of
                    MessagesUpdate us \<Rightarrow> onMessagesUpdate st instanceId us
                  | ReceiptUpdate us \<Rightarrow> onReceiptUpdate st instanceId us))"

section \<open>The message ledger (messages.js)\<close>

text \<open>
  JavaScript truthiness of a value that is a string, \<open>null\<close> or \<open>undefined\<close>, and
  the idiom \<open>x || null\<close>.
\<close>

definition truthy :: "string option \<Rightarrow> bool" where
  "truthy x = (case x of None \<Rightarrow> False | Some s \<Rightarrow> s \<noteq> [])"

definition or_null :: "string option \<Rightarrow> string option" where
  "or_null x = (if truthy x then x else None)"

text \<open>
  \<open>formatScheduledAt\<close> renders the parsed date to the minute
  (\<open>YYYY-MM-DDTHH:mm\<close>); a missing or unparsable time is \<open>None\<close> on input.
\<close>

definition formatScheduledAt :: "timestamp option \<Rightarrow> timestamp option" where
  "formatScheduledAt scheduledAt =
     (case scheduledAt of None \<Rightarrow> None | Some t \<Rightarrow> Some (t div 60000 * 60000))"

text \<open>
  \<open>replacePlaceholders\<close>. The \<open>phoneList\<close> table and the regular-expression
  replacement over its first matching row are the parameter \<open>fill\<close> (text, phone
  number, instance id), which gives the text back when the table has no row for the
  number; the guards and the \<open>catch\<close> are the source's.
\<close>

definition replacePlaceholders ::
  "(string \<Rightarrow> string \<Rightarrow> string \<Rightarrow> string) \<Rightarrow> store
     \<Rightarrow> string option \<Rightarrow> string \<Rightarrow> string \<Rightarrow> string option" where
  "replacePlaceholders fill st text phoneNumber instanceId =
     (case text of
        None \<Rightarrow> None
      | Some t \<Rightarrow>
          if t = [] \<or> phoneNumber = [] \<or> instanceId = [] then text
          else if \<not> reachable st then text
          else Some (fill t phoneNumber instanceId))"

definition validMessageStatus :: "string list" where
  "validMessageStatus = [''sent'', ''delivered'', ''read'', ''failed'', ''pending'']"

text \<open>The next \<open>AUTO_INCREMENT\<close> id of \<open>media_messages\<close>: above every id in use.\<close>

definition next_id :: "media_message list \<Rightarrow> nat" where
  "next_id rows = Suc (fold max (map msg_id rows) 0)"

datatype insert_ids = One nat | Many "nat list"

text \<open>
  The \<open>INSERT\<close> of \<open>logMediaMessageToDB\<close> for each phone number in turn
  (\<open>instanceId || null\<close>, \<open>processedMessage || null\<close>, ...); the ids inserted so
  far are accumulated.
\<close>

fun insert_messages ::
  "(string \<Rightarrow> string \<Rightarrow> string \<Rightarrow> string) \<Rightarrow> store \<Rightarrow> timestamp \<Rightarrow> string
     \<Rightarrow> string option \<Rightarrow> string option \<Rightarrow> string option \<Rightarrow> timestamp option \<Rightarrow> string
     \<Rightarrow> string option \<Rightarrow> string list \<Rightarrow> db_error + (store \<times> nat list)" where
  "insert_messages fill st now instanceId msg med cap scheduleTime status wid [] = Inr (st, [])"
| "insert_messages fill st now instanceId msg med cap scheduleTime status wid (phoneNumber # rest) =
     (if \<not> reachable st then Inl QueryFailed
      else
        (let processedMessage = replacePlaceholders fill st msg phoneNumber instanceId;
             processedCaption = (if truthy cap
                                 then replacePlaceholders fill st cap phoneNumber instanceId
                                 else None);
             i = next_id (media_messages st);
             row = \<lparr>msg_id = i,
                    instance_id = (if instanceId = [] then None else Some instanceId),
                    recipient = phoneNumber,
                    message = or_null processedMessage,
                    media = or_null med,
                    caption = or_null processedCaption,
                    schedule_time = formatScheduledAt scheduleTime,
                    message_status = status,
                    whatsapp_message_id = or_null wid,
                    created_at = now\<rparr>
         in case insert_messages fill (st\<lparr>media_messages := media_messages st @ [row]\<rparr>) now
                   instanceId msg med cap scheduleTime status wid rest of
              Inl e \<Rightarrow> Inl e
            | Inr (st', ids) \<Rightarrow> Inr (st', i # ids)))"

text \<open>
  \<open>logMediaMessageToDB\<close> of messages.js: a status outside the valid list is replaced
  by \<open>sent\<close>; one row per phone number; the result is the single id or the array of
  ids.
\<close>

definition logMediaMessageToDB ::
  "(string \<Rightarrow> string \<Rightarrow> string \<Rightarrow> string) \<Rightarrow> store \<Rightarrow> timestamp \<Rightarrow> string \<Rightarrow> string list
     \<Rightarrow> string option \<Rightarrow> string option \<Rightarrow> string option \<Rightarrow> timestamp option \<Rightarrow> string
     \<Rightarrow> string option \<Rightarrow> db_error + (store \<times> insert_ids)" where
  "logMediaMessageToDB fill st now instanceId phoneNumbers msg med cap scheduleTime messageStatus
       whatsappMessageId =
     (let messageStatusValidated =
            (if messageStatus \<in> set validMessageStatus then messageStatus else ''sent'')
      in case insert_messages fill st now instanceId msg med cap scheduleTime
                messageStatusValidated whatsappMessageId phoneNumbers of
           Inl e \<Rightarrow> Inl e
         | Inr (st', results) \<Rightarrow>
             Inr (st', case results of [i] \<Rightarrow> One i | _ \<Rightarrow> Many results))"

text \<open>
  The earlier \<open>logMediaMessageToDB\<close>: one row for the whole call, its recipient the
  phone numbers joined by commas.
\<close>

fun join_comma :: "string list \<Rightarrow> string" where
  "join_comma [] = []"
| "join_comma [x] = x"
| "join_comma (x # y # ys) = x @ '','' @ join_comma (y # ys)"

definition logMediaMessageToDB_legacy ::
  "store \<Rightarrow> timestamp \<Rightarrow> string \<Rightarrow> string list
     \<Rightarrow> string option \<Rightarrow> string option \<Rightarrow> string option \<Rightarrow> timestamp option \<Rightarrow> string
     \<Rightarrow> string option \<Rightarrow> db_error + (store \<times> nat)" where
  "logMediaMessageToDB_legacy st now instanceId phoneNumbers msg med cap scheduleTime messageStatus
       whatsappMessageId =
     (let messageStatusValidated =
            (if messageStatus \<in> set validMessageStatus then messageStatus else ''sent'')
      in if \<not> reachable st then Inl QueryFailed
         else
           (let i = next_id (media_messages st);
                row = \<lparr>msg_id = i,
                       instance_id = (if instanceId = [] then None else Some instanceId),
                       recipient = join_comma phoneNumbers,
                       message = or_null msg,
                       media = or_null med,
                       caption = or_null cap,
                       schedule_time = formatScheduledAt scheduleTime,
                       message_status = messageStatusValidated,
                       whatsapp_message_id = or_null whatsappMessageId,
                       created_at = now\<rparr>
            in Inr (st\<lparr>media_messages := media_messages st @ [row]\<rparr>, i)))"

subsection \<open>The delivery timeline (table \<open>report_time\<close>)\<close>

datatype time_field = InitiatedTime | SentTime | DeliveredTime | ReadTime | FailedTime

fun get_time :: "time_field \<Rightarrow> report_time_row \<Rightarrow> timestamp option" where
  "get_time InitiatedTime r = initiated_time r"
| "get_time SentTime r = sent_time r"
| "get_time DeliveredTime r = delivered_time r"
| "get_time ReadTime r = read_time r"
| "get_time FailedTime r = failed_time r"

fun set_time :: "time_field \<Rightarrow> timestamp option \<Rightarrow> report_time_row \<Rightarrow> report_time_row" where
  "set_time InitiatedTime v r = r\<lparr>initiated_time := v\<rparr>"
| "set_time SentTime v r = r\<lparr>sent_time := v\<rparr>"
| "set_time DeliveredTime v r = r\<lparr>delivered_time := v\<rparr>"
| "set_time ReadTime v r = r\<lparr>read_time := v\<rparr>"
| "set_time FailedTime v r = r\<lparr>failed_time := v\<rparr>"

text \<open>\<open>String.prototype.toLowerCase\<close> on ASCII letters.\<close>

definition lower_char :: "char \<Rightarrow> char" where
  "lower_char c = (let n = (of_char c :: nat) in if 65 \<le> n \<and> n \<le> 90 then char_of (n + 32) else c)"

definition toLowerCase :: "string \<Rightarrow> string" where
  "toLowerCase s = map lower_char s"

text \<open>\<open>recipient.split(',')\<close> and \<open>trim()\<close>.\<close>

definition split_comma :: "string \<Rightarrow> string list" where
  "split_comma s =
     foldr (\<lambda>c acc. if c = CHR '','' then [] # acc
                     else (case acc of [] \<Rightarrow> [[c]] | a # as \<Rightarrow> (c # a) # as)) s [[]]"

definition is_space :: "char \<Rightarrow> bool" where
  "is_space c = (c \<in> set [CHR '' '', CHR 0x09, CHR 0x0A, CHR 0x0B, CHR 0x0C, CHR 0x0D])"

definition trim :: "string \<Rightarrow> string" where
  "trim s = rev (dropWhile is_space (rev (dropWhile is_space s)))"

text \<open>
  The \<open>switch\<close> of \<open>updateMessageStatusInDB\<close> (no field for pending) and the one of
  \<open>migrateMessageToReportTime\<close> (default \<open>initiated_time\<close>).
\<close>

definition status_field :: "string \<Rightarrow> time_field option" where
  "status_field s =
     (if s = ''sent'' then Some SentTime
      else if s = ''delivered'' then Some DeliveredTime
      else if s = ''read'' then Some ReadTime
      else if s = ''failed'' then Some FailedTime
      else None)"

definition migrate_field :: "string \<Rightarrow> time_field" where
  "migrate_field s = (case status_field s of Some f \<Rightarrow> f | None \<Rightarrow> InitiatedTime)"

text \<open>
  \<open>INSERT INTO report_time (..., initiated_time, f, created_at) VALUES (...)
  ON DUPLICATE KEY UPDATE initiated_time = VALUES(initiated_time), f = VALUES(f)\<close>:
  \<open>whatsapp_message_id\<close> is the unique key, so an existing row for the id is
  overwritten in both columns and a new row is appended otherwise.
\<close>

fun update_first :: "('a \<Rightarrow> bool) \<Rightarrow> ('a \<Rightarrow> 'a) \<Rightarrow> 'a list \<Rightarrow> 'a list" where
  "update_first P f [] = []"
| "update_first P f (x # xs) = (if P x then f x # xs else x # update_first P f xs)"

definition upsert_report ::
  "string \<Rightarrow> string \<Rightarrow> time_field \<Rightarrow> timestamp \<Rightarrow> string \<Rightarrow> report_time_row list
     \<Rightarrow> report_time_row list" where
  "upsert_report instanceId wid f t singleRecipient rows =
     (if \<exists>r \<in> set rows. rt_whatsapp_message_id r = wid
      then update_first (\<lambda>r. rt_whatsapp_message_id r = wid)
             (\<lambda>r. set_time f (Some t) (r\<lparr>initiated_time := Some t\<rparr>)) rows
      else rows @ [set_time f (Some t)
             \<lparr>rt_instance_id = instanceId, rt_recipient = singleRecipient,
              rt_whatsapp_message_id = wid, initiated_time = Some t, sent_time = None,
              delivered_time = None, read_time = None, failed_time = None,
              rt_created_at = t\<rparr>])"

text \<open>
  \<open>migrateMessageToReportTime\<close>. Every error is caught and logged, so the result is
  a store. With the default field the statement names \<open>initiated_time\<close> twice in its
  column list, which the database rejects.
\<close>

definition migrateMessageToReportTime ::
  "store \<Rightarrow> timestamp \<Rightarrow> string option \<Rightarrow> string \<Rightarrow> string option \<Rightarrow> string
     \<Rightarrow> timestamp option \<Rightarrow> store" where
  "migrateMessageToReportTime st now instanceId rcpt whatsappMessageId messageStatus createdAt =
     (case (instanceId, whatsappMessageId) of
        (Some inst, Some wid) \<Rightarrow>
          if inst = [] \<or> rcpt = [] \<or> wid = [] then st
          else if \<not> reachable st then st
          else
            (let f = migrate_field (toLowerCase messageStatus);
                 t = (case createdAt of Some c \<Rightarrow> c | None \<Rightarrow> now);
                 recipients = filter (\<lambda>r. r \<noteq> []) (map trim (split_comma rcpt))
             in if f = InitiatedTime then st
                else st\<lparr>report_time := fold (upsert_report inst wid f t) recipients (report_time st)\<rparr>)
      | _ \<Rightarrow> st)"

text \<open>
  \<open>updateMessageStatusInDB\<close> of messages.js: an invalid status is an error; the
  status of the row is overwritten; when the row has a transport message id, the
  timeline column of the new status is set to \<open>NOW()\<close> in the rows of that id, and a
  timeline row is created when none exists. \<open>affectedRows\<close> counts the rows matched
  by the \<open>WHERE\<close> clause.
\<close>

definition updateMessageStatusInDB_msgs ::
  "store \<Rightarrow> timestamp \<Rightarrow> nat \<Rightarrow> string \<Rightarrow> db_error + store" where
  "updateMessageStatusInDB_msgs st now messageId newStatus =
     (if newStatus \<notin> set validMessageStatus then Inl (InvalidStatus newStatus)
      else if \<not> reachable st then Inl QueryFailed
      else
        (case rows_where_id (Some messageId) (media_messages st) of
           [] \<Rightarrow> Inr st
         | m # _ \<Rightarrow>
             (let affectedRows = length (rows_where_id (Some messageId) (media_messages st));
                  st1 = st\<lparr>media_messages :=
                           set_status_where_id (Some messageId) newStatus (media_messages st)\<rparr>
              in if affectedRows > 0
                 then
                   (if truthy (whatsapp_message_id m)
                    then
                      (case status_field (toLowerCase newStatus) of
                         None \<Rightarrow> Inr st1
                       | Some f \<Rightarrow>
                           if filter (\<lambda>r. Some (rt_whatsapp_message_id r) = whatsapp_message_id m)
                                (report_time st1) \<noteq> []
                           then Inr (st1\<lparr>report_time :=
                                  map (\<lambda>r. if Some (rt_whatsapp_message_id r) = whatsapp_message_id m
                                            then set_time f (Some now) r else r) (report_time st1)\<rparr>)
                           else Inr (migrateMessageToReportTime st1 now (instance_id m) (recipient m)
                                       (whatsapp_message_id m) newStatus (Some (created_at m))))
                    else Inr st1)
                 else Inr st1)))"

text \<open>
  \<open>updateMessageWithWhatsAppId\<close>: nothing is written when the database id or the
  transport message id is missing; the result is \<open>undefined\<close> (\<open>None\<close>) on the early
  returns, else whether a row was updated, and \<open>false\<close> on a caught error.
\<close>

definition updateMessageWithWhatsAppId ::
  "store \<Rightarrow> timestamp \<Rightarrow> nat \<Rightarrow> string option \<Rightarrow> store \<times> bool option" where
  "updateMessageWithWhatsAppId st now dbId whatsappMessageId =
     (if dbId = 0 \<or> \<not> truthy whatsappMessageId then (st, None)
      else if \<not> reachable st then (st, Some False)
      else
        (case rows_where_id (Some dbId) (media_messages st) of
           [] \<Rightarrow> (st, None)
         | m # _ \<Rightarrow>
             (let affectedRows = length (rows_where_id (Some dbId) (media_messages st));
                  st1 = st\<lparr>media_messages :=
                           map (\<lambda>r. if msg_id r = dbId
                                     then r\<lparr>whatsapp_message_id := whatsappMessageId,
                                            message_status := ''sent''\<rparr>
                                     else r) (media_messages st)\<rparr>
              in if affectedRows > 0
                 then (migrateMessageToReportTime st1 now (instance_id m) (recipient m)
                         whatsappMessageId ''sent'' (Some (created_at m)), Some True)
                 else (st1, Some False))))"

section \<open>The connection registry and supervisor (qrcode.js)\<close>

text \<open>
  A socket is the transport's handle object: its identity (\<open>===\<close> compares
  \<open>handle\<close>) and its \<open>user\<close> field, which the transport sets once the session is
  authenticated. A registry entry is the object stored under \<open>instances[instanceId]\<close>;
  an entry built by spreading a missing entry has no \<open>sock\<close>.
\<close>

record wa_user =
  user_id :: string

record sock =
  handle :: nat
  user :: "wa_user option"

record instance_entry =
  entry_sock :: "sock option"
  qrCode :: "string option"
  entry_status :: string
  lastUpdate :: timestamp

type_synonym registry = "string \<Rightarrow> instance_entry option"

datatype js_value = JUndefined | JBool bool | JUser wa_user

definition js_truthy :: "js_value \<Rightarrow> bool" where
  "js_truthy v = (case v of JUndefined \<Rightarrow> False | JBool b \<Rightarrow> b | JUser _ \<Rightarrow> True)"

record status_response =
  http_code :: nat
  resp_success :: bool
  resp_connected :: js_value
  resp_status :: string
  resp_message :: string
  resp_lastUpdate :: "timestamp option"

text \<open>
  The registry \<open>instances\<close> is a plain object (\<open>const instances = {}\<close>), so a lookup
  \<open>instances[id]\<close> that finds no own property goes on to \<open>Object.prototype\<close>. The
  names below are the properties found there; each of them is a function or an object,
  hence truthy, and none of them has a \<open>sock\<close>, a \<open>status\<close> or a \<open>lastUpdate\<close>.
\<close>

definition Object_prototype_names :: "string list" where
  "Object_prototype_names =
     [''constructor'', ''__defineGetter__'', ''__defineSetter__'', ''hasOwnProperty'',
      ''__lookupGetter__'', ''__lookupSetter__'', ''isPrototypeOf'', ''propertyIsEnumerable'',
      ''toString'', ''valueOf'', ''__proto__'', ''toLocaleString'']"

datatype registry_lookup = Absent | Inherited | Entry instance_entry

definition lookup_instance :: "registry \<Rightarrow> string \<Rightarrow> registry_lookup" where
  "lookup_instance instances instanceId =
     (case instances instanceId of
        Some e \<Rightarrow> Entry e
      | None \<Rightarrow> if instanceId \<in> set Object_prototype_names then Inherited else Absent)"

text \<open>
  \<open>getConnectionStatus\<close>. \<open>isConnected\<close> is the value of
  \<open>instance.sock && instance.sock.user\<close>, and that value is what the response
  carries in \<open>connected\<close>. For an id that names a member of \<open>Object.prototype\<close> the
  lookup is truthy, \<open>isConnected\<close>, \<open>instance.status\<close> and \<open>instance.lastUpdate\<close>
  are \<open>undefined\<close>, and the answer is 200 with status \<open>disconnected\<close>. Nothing in
  the body throws, so the 500 answer of its \<open>catch\<close> is not among the results.

  The other readers of the registry (the spread in the close handler, the reconnect
  callback, the scheduler) look only at \<open>sock\<close> and \<open>status\<close> of what they find,
  and spreading copies own enumerable properties only, so for them an inherited member
  is the same as a missing entry; they read the registry directly. (An assignment to
  \<open>instances['__proto__']\<close> stores no property but replaces the prototype; an instance
  of that name is not among the registries considered here.)
\<close>

definition getConnectionStatus :: "registry \<Rightarrow> string \<Rightarrow> status_response" where
  "getConnectionStatus instances instanceId =
     (case lookup_instance instances instanceId of
        Absent \<Rightarrow>
          \<lparr>http_code = 404, resp_success = False, resp_connected = JBool False,
           resp_status = ''not_found'', resp_message = ''Instance not found'',
           resp_lastUpdate = None\<rparr>
      | Inherited \<Rightarrow>
          \<lparr>http_code = 200, resp_success = True, resp_connected = JUndefined,
           resp_status = ''disconnected'', resp_message = ''WhatsApp is not connected'',
           resp_lastUpdate = None\<rparr>
      | Entry inst \<Rightarrow>
          (let isConnected =
                 (case entry_sock inst of
                    None \<Rightarrow> JUndefined
                  | Some s \<Rightarrow> (case user s of None \<Rightarrow> JUndefined | Some u \<Rightarrow> JUser u));
               (st, msg) =
                 (if js_truthy isConnected then (''connected'', ''WhatsApp is connected'')
                  else if entry_status inst = ''reconnecting''
                       then (''reconnecting'', ''WhatsApp is reconnecting...'')
                       else (''disconnected'', ''WhatsApp is not connected''))
           in \<lparr>http_code = 200, resp_success = True, resp_connected = isConnected,
               resp_status = st, resp_message = msg,
               resp_lastUpdate = Some (lastUpdate inst)\<rparr>))"

subsection \<open>Connection updates\<close>

text \<open>
  A \<open>connection.update\<close> event: \<open>connection\<close>, \<open>qr\<close>, and the status code found
  at \<open>lastDisconnect.error.output.statusCode\<close> (\<open>None\<close> when a link of that chain is
  missing).
\<close>

record connection_update =
  connection :: "string option"
  qr :: "string option"
  disconnect_code :: "int option"

datatype init_result = Connected | QrCode string

datatype promise_state = Pending | Resolved init_result | Rejected string

text \<open>
  The closure of one \<open>initializeSock\<close> call: its socket, the flag \<open>hasResolved\<close>,
  the state of \<open>connectionPromise\<close> and whether the two-minute timeout is cleared.
\<close>

record init_call =
  call_instanceId :: string
  call_sock :: sock
  hasResolved :: bool
  connectionPromise :: promise_state
  timeoutCleared :: bool

text \<open>A pending \<open>setTimeout\<close>: the delay and the reconnect callback's captured values.\<close>

record reconnect_timer =
  delay_ms :: nat
  timer_instanceId :: string
  timer_sock :: sock

record supervisor =
  instances :: registry
  timers :: "reconnect_timer list"
  credsSaved :: nat

definition resolve :: "init_result \<Rightarrow> promise_state \<Rightarrow> promise_state" where
  "resolve v p = (case p of Pending \<Rightarrow> Resolved v | _ \<Rightarrow> p)"

definition reject :: "string \<Rightarrow> promise_state \<Rightarrow> promise_state" where
  "reject e p = (case p of Pending \<Rightarrow> Rejected e | _ \<Rightarrow> p)"

text \<open>
  The status code as the handler reads it: a missing or falsy code is \<open>null\<close>.
\<close>

definition statusCode_of :: "connection_update \<Rightarrow> int option" where
  "statusCode_of u =
     (case disconnect_code u of None \<Rightarrow> None | Some c \<Rightarrow> if c = 0 then None else Some c)"

text \<open>
  The three parts of the \<open>connection.update\<close> handler of \<open>initializeSock\<close>, in the
  order of the source. \<open>toDataURL\<close> is the QR renderer (\<open>None\<close>: it throws);
  \<open>loggedOut\<close> is \<open>DisconnectReason.loggedOut\<close>.
\<close>

definition on_qr ::
  "(string \<Rightarrow> string option) \<Rightarrow> timestamp \<Rightarrow> connection_update
     \<Rightarrow> init_call \<times> supervisor \<Rightarrow> init_call \<times> supervisor" where
  "on_qr toDataURL now u cs =
     (case cs of (c, s) \<Rightarrow>
        (case qr u of
           None \<Rightarrow> (c, s)
         | Some q \<Rightarrow>
             if q = [] \<or> hasResolved c then (c, s)
             else
               (case toDataURL q of
                  None \<Rightarrow> (c\<lparr>connectionPromise := reject ''qrcode'' (connectionPromise c)\<rparr>, s)
                | Some url \<Rightarrow>
                    (c\<lparr>connectionPromise := resolve (QrCode url) (connectionPromise c),
                       hasResolved := True\<rparr>,
                     s\<lparr>instances := (instances s)(call_instanceId c \<mapsto>
                          \<lparr>entry_sock = Some (call_sock c), qrCode = Some url,
                           entry_status = ''disconnected'', lastUpdate = now\<rparr>)\<rparr>))))"

definition on_open ::
  "timestamp \<Rightarrow> connection_update \<Rightarrow> init_call \<times> supervisor \<Rightarrow> init_call \<times> supervisor" where
  "on_open now u cs =
     (case cs of (c, s) \<Rightarrow>
        if connection u = Some ''open''
        then (c\<lparr>timeoutCleared := True,
                connectionPromise := (if hasResolved c then connectionPromise c
                                      else resolve Connected (connectionPromise c)),
                hasResolved := True\<rparr>,
              s\<lparr>instances := (instances s)(call_instanceId c \<mapsto>
                   \<lparr>entry_sock = Some (call_sock c), qrCode = None,
                    entry_status = ''connected'', lastUpdate = now\<rparr>),
                credsSaved := Suc (credsSaved s)\<rparr>)
        else (c, s))"

text \<open>
  \<open>{...instances[instanceId], status: ..., lastUpdate: new Date()}\<close>.
\<close>

definition spread_status :: "registry \<Rightarrow> string \<Rightarrow> string \<Rightarrow> timestamp \<Rightarrow> instance_entry" where
  "spread_status reg instanceId st now =
     (case reg instanceId of
        None \<Rightarrow> \<lparr>entry_sock = None, qrCode = None, entry_status = st, lastUpdate = now\<rparr>
      | Some e \<Rightarrow> e\<lparr>entry_status := st, lastUpdate := now\<rparr>)"

definition on_close ::
  "int \<Rightarrow> timestamp \<Rightarrow> connection_update \<Rightarrow> init_call \<times> supervisor \<Rightarrow> init_call \<times> supervisor" where
  "on_close loggedOut now u cs =
     (case cs of (c, s) \<Rightarrow>
        if connection u = Some ''close''
        then
          (let shouldReconnect = (statusCode_of u \<noteq> Some loggedOut)
           in if shouldReconnect
              then (c, s\<lparr>instances := (instances s)(call_instanceId c \<mapsto>
                            spread_status (instances s) (call_instanceId c) ''reconnecting'' now),
                         timers := timers s @ [\<lparr>delay_ms = 5000,
                                                timer_instanceId = call_instanceId c,
                                                timer_sock = call_sock c\<rparr>]\<rparr>)
              else (c\<lparr>connectionPromise := (if hasResolved c then connectionPromise c
                                             else reject ''Connection closed'' (connectionPromise c))\<rparr>,
                    s\<lparr>instances := (instances s)(call_instanceId c \<mapsto>
                            spread_status (instances s) (call_instanceId c) ''disconnected'' now)\<rparr>))
        else (c, s))"

definition on_connection_update ::
  "(string \<Rightarrow> string option) \<Rightarrow> int \<Rightarrow> timestamp \<Rightarrow> connection_update
     \<Rightarrow> init_call \<times> supervisor \<Rightarrow> init_call \<times> supervisor" where
  "on_connection_update toDataURL loggedOut now u cs =
     on_close loggedOut now u (on_open now u (on_qr toDataURL now u cs))"

text \<open>
  The start of an \<open>initializeSock\<close> call: a new socket (\<open>makeWASocket\<close>), not yet
  authenticated, and a pending promise. The registry is written only by the
  connection updates that follow.
\<close>

definition initializeSock :: "string \<Rightarrow> nat \<Rightarrow> init_call" where
  "initializeSock instanceId fresh =
     \<lparr>call_instanceId = instanceId, call_sock = \<lparr>handle = fresh, user = None\<rparr>,
      hasResolved = False, connectionPromise = Pending, timeoutCleared = False\<rparr>"

text \<open>
  The reconnect callback scheduled by the close handler, when its timer fires:
  it reconnects only if the registry still holds the socket that closed. The result
  says whether a new \<open>initializeSock\<close> call was started (with socket handle \<open>fresh\<close>).
\<close>

definition reconnect_callback ::
  "nat \<Rightarrow> reconnect_timer \<Rightarrow> supervisor \<Rightarrow> supervisor \<times> init_call option" where
  "reconnect_callback fresh t s =
     (let currentSock = (case instances s (timer_instanceId t) of
                           None \<Rightarrow> None
                         | Some e \<Rightarrow> entry_sock e)
      in if map_option handle currentSock = Some (handle (timer_sock t))
         then (s\<lparr>credsSaved := Suc (credsSaved s),
                 instances := (instances s)(timer_instanceId t := None)\<rparr>,
               Some (initializeSock (timer_instanceId t) fresh))
         else (s, None))"

section \<open>The send pipeline (messages.js)\<close>

record outbound =
  out_number :: string
  out_text :: "string option"
  out_caption :: "string option"

datatype media_kind = Image | Video | Audio | Document

record media_payload =
  kind :: media_kind
  mimetype :: string
  fileName :: "string option"
  payload_caption :: string
  ptt :: bool

datatype content = TextContent string | MediaContent media_payload

text \<open>
  The transport is an oracle: the outcome of the \<open>n\<close>-th call of
  \<open>sock.sendMessage\<close>. \<open>SendOk (Some id)\<close> resolves with a message whose
  \<open>key.id\<close> is \<open>id\<close>, \<open>SendOk None\<close> resolves with \<open>undefined\<close>, and
  \<open>SendErr m\<close> rejects with an error whose message is \<open>m\<close>.
\<close>

datatype send_outcome = SendOk "string option" | SendErr string

datatype effect = Attempt string content | Sleep nat

text \<open>
  The state a batch runs in: the store, the clock, the number of transport calls made
  so far, and the trace of transport calls and sleeps in the order they happen.
\<close>

record world =
  w_store :: store
  w_now :: timestamp
  w_sends :: nat
  w_trace :: "effect list"

record env =
  transport :: "nat \<Rightarrow> send_outcome"
  placeholders :: "string \<Rightarrow> string \<Rightarrow> string \<Rightarrow> string"
  random500 :: "nat \<Rightarrow> nat"

definition sleep :: "nat \<Rightarrow> world \<Rightarrow> world" where
  "sleep ms w = w\<lparr>w_now := w_now w + ms, w_trace := w_trace w @ [Sleep ms]\<rparr>"

definition MAX_RETRIES :: nat where
  "MAX_RETRIES = 3"

definition RETRY_DELAY :: nat where
  "RETRY_DELAY = 3000"

text \<open>
  \<open>getRandomDelay\<close>: \<open>Math.floor(Math.random() * (2500 - 2000)) + 2000\<close>, the
  floored product being the argument.
\<close>

definition getRandomDelay :: "nat \<Rightarrow> nat" where
  "getRandomDelay r = r + 2000"

function sendWithRetry ::
  "(nat \<Rightarrow> send_outcome) \<Rightarrow> world \<Rightarrow> string \<Rightarrow> content \<Rightarrow> nat
     \<Rightarrow> world \<times> (string + string option)" where
  "sendWithRetry tr w jid messageContent retryCount =
     (case tr (w_sends w) of
        SendOk result \<Rightarrow>
          (w\<lparr>w_sends := Suc (w_sends w), w_trace := w_trace w @ [Attempt jid messageContent]\<rparr>,
           Inr result)
      | SendErr msg \<Rightarrow>
          if retryCount < MAX_RETRIES \<and> msg = ''Timed Out''
          then sendWithRetry tr
                 (sleep RETRY_DELAY
                    (w\<lparr>w_sends := Suc (w_sends w),
                       w_trace := w_trace w @ [Attempt jid messageContent]\<rparr>))
                 jid messageContent (Suc retryCount)
          else (w\<lparr>w_sends := Suc (w_sends w), w_trace := w_trace w @ [Attempt jid messageContent]\<rparr>,
                Inl msg))"
  by pat_completeness auto
termination
  by (relation "measure (\<lambda>(tr, w, jid, c, n). MAX_RETRIES - n)") auto

text \<open>
  The \<open>catch\<close> of a failed send: \<open>await updateMessageStatusInDB(dbMessageId, 'failed')\<close>
  and rethrow (an error of the update itself propagates in the same way).
\<close>

definition mark_failed :: "world \<Rightarrow> nat \<Rightarrow> world" where
  "mark_failed w dbMessageId =
     (case updateMessageStatusInDB_msgs (w_store w) (w_now w) dbMessageId ''failed'' of
        Inl e \<Rightarrow> w
      | Inr st \<Rightarrow> w\<lparr>w_store := st\<rparr>)"

text \<open>
  One guarded send (\<open>try { r = await sendWithRetry(...); id = r.result.key.id }
  catch { mark failed; throw }\<close>): the transport message id, or \<open>None\<close> when the
  block throws (a rejected send, or a result without a message).
\<close>

definition try_send ::
  "(nat \<Rightarrow> send_outcome) \<Rightarrow> world \<Rightarrow> string \<Rightarrow> content \<Rightarrow> nat \<Rightarrow> world \<times> string option" where
  "try_send tr w jid messageContent dbMessageId =
     (case sendWithRetry tr w jid messageContent 0 of
        (w', Inr (Some wid)) \<Rightarrow> (w', Some wid)
      | (w', Inr None) \<Rightarrow> (mark_failed w' dbMessageId, None)
      | (w', Inl e) \<Rightarrow> (mark_failed w' dbMessageId, None))"

text \<open>
  The body of the loop of \<open>sendMessagesOneAtATime\<close> for one message, in its three
  blocks. Each send block results in the transport message id so far (\<open>Inr\<close>), or
  \<open>Inl ()\<close> when it threw.

  ``Send media with caption if mediaPayload exists'':
\<close>

definition send_media_block ::
  "env \<Rightarrow> media_payload option \<Rightarrow> string option \<Rightarrow> world \<Rightarrow> string \<Rightarrow> nat
     \<Rightarrow> world \<times> (unit + string option)" where
  "send_media_block e mediaPayload processedCaption w jid dbMessageId =
     (case mediaPayload of
        None \<Rightarrow> (w, Inr None)
      | Some mp \<Rightarrow>
          (case try_send (transport e) w jid
                  (MediaContent
                     (case processedCaption of
                        None \<Rightarrow> mp
                      | Some c \<Rightarrow> if c = [] then mp else mp\<lparr>payload_caption := c\<rparr>))
                  dbMessageId of
             (w2, None) \<Rightarrow> (w2, Inl ())
           | (w2, Some wid) \<Rightarrow> (w2, Inr (Some wid))))"

text \<open>``Send text message if it exists'':\<close>

definition send_text_block ::
  "env \<Rightarrow> string option \<Rightarrow> world \<Rightarrow> string \<Rightarrow> nat \<Rightarrow> string option
     \<Rightarrow> world \<times> (unit + string option)" where
  "send_text_block e processedText w jid dbMessageId whatsappMessageId =
     (case processedText of
        None \<Rightarrow> (w, Inr whatsappMessageId)
      | Some t \<Rightarrow>
          if t = [] then (w, Inr whatsappMessageId)
          else
            (case try_send (transport e) w jid (TextContent t) dbMessageId of
               (w3, None) \<Rightarrow> (w3, Inl ())
             | (w3, Some wid) \<Rightarrow> (w3, Inr (Some wid))))"

text \<open>
  The random delay, then \<open>updateMessageWithWhatsAppId\<close>, whose result is not looked
  at, then \<open>totalMessagesSent++\<close>:
\<close>

definition finish_message :: "env \<Rightarrow> world \<Rightarrow> nat \<Rightarrow> string option \<Rightarrow> world" where
  "finish_message e w dbMessageId whatsappMessageId =
     (let w4 = sleep (getRandomDelay (random500 e (w_sends w))) w;
          (st5, r) = updateMessageWithWhatsAppId (w_store w4) (w_now w4) dbMessageId
                       whatsappMessageId
      in w4\<lparr>w_store := st5\<rparr>)"

text \<open>
  The whole body: the new world and whether \<open>totalMessagesSent\<close> was incremented.
  Every exception ends in the \<open>catch\<close> of the loop body, which logs it and goes on.
  The call of \<open>logMediaMessageToDB\<close> passes one phone number, so its result is one id.
\<close>

definition sendOneMessage ::
  "env \<Rightarrow> media_payload option \<Rightarrow> string \<Rightarrow> string option \<Rightarrow> timestamp option
     \<Rightarrow> world \<Rightarrow> outbound \<Rightarrow> world \<times> bool" where
  "sendOneMessage e mediaPayload instanceId filePath scheduleTime w m =
     (let jid = out_number m @ ''@s.whatsapp.net'';
          processedText =
            replacePlaceholders (placeholders e) (w_store w) (out_text m) (out_number m) instanceId;
          processedCaption =
            replacePlaceholders (placeholders e) (w_store w) (out_caption m) (out_number m) instanceId
      in case logMediaMessageToDB (placeholders e) (w_store w) (w_now w) instanceId [out_number m]
                (or_null (out_text m)) (if mediaPayload \<noteq> None then filePath else None)
                (or_null (out_caption m)) scheduleTime ''pending'' None of
           Inl err \<Rightarrow> (w, False)
         | Inr (st1, Many ids) \<Rightarrow> (w\<lparr>w_store := st1\<rparr>, False)
         | Inr (st1, One dbMessageId) \<Rightarrow>
             (case send_media_block e mediaPayload processedCaption (w\<lparr>w_store := st1\<rparr>) jid
                     dbMessageId of
                (w2, Inl u) \<Rightarrow> (w2, False)
              | (w2, Inr mediaId) \<Rightarrow>
                  (case send_text_block e processedText w2 jid dbMessageId mediaId of
                     (w3, Inl u) \<Rightarrow> (w3, False)
                   | (w3, Inr whatsappMessageId) \<Rightarrow>
                       (finish_message e w3 dbMessageId whatsappMessageId, True))))"

text \<open>
  The elements of the batch come from the request body, so one of them may be
  \<open>null\<close> (\<open>None\<close>). Reading a property of \<open>null\<close> is a \<open>TypeError\<close>, with the
  engine's message:
\<close>

definition TypeError_null :: "string \<Rightarrow> string" where
  "TypeError_null property =
     ''Cannot read properties of null (reading '' @ [CHR 0x27] @ property @ [CHR 0x27] @ '')''"

text \<open>
  The loop. \<open>jid\<close> is computed from \<open>message.number\<close> before the \<open>try\<close> of the
  body, so a \<open>null\<close> element throws out of the loop: the call rejects with what the
  earlier messages did left in place, and the rest of the batch is not processed.
\<close>

fun send_loop ::
  "env \<Rightarrow> media_payload option \<Rightarrow> string \<Rightarrow> string option \<Rightarrow> timestamp option
     \<Rightarrow> world \<Rightarrow> nat \<Rightarrow> outbound option list \<Rightarrow> (string \<times> world) + (world \<times> nat)" where
  "send_loop e mediaPayload instanceId filePath scheduleTime w totalMessagesSent [] =
     Inr (w, totalMessagesSent)"
| "send_loop e mediaPayload instanceId filePath scheduleTime w totalMessagesSent (None # ms) =
     Inl (TypeError_null ''number'', w)"
| "send_loop e mediaPayload instanceId filePath scheduleTime w totalMessagesSent (Some m # ms) =
     (case sendOneMessage e mediaPayload instanceId filePath scheduleTime w m of
        (w', counted) \<Rightarrow>
          send_loop e mediaPayload instanceId filePath scheduleTime w'
            (if counted then Suc totalMessagesSent else totalMessagesSent) ms)"

text \<open>
  \<open>sendMessagesOneAtATime\<close>: it throws when the socket is not authenticated, and
  otherwise returns \<open>totalMessagesSent\<close> after the loop. A rejection carries the
  world as the call left it.
\<close>

definition sock_ready :: "sock option \<Rightarrow> bool" where
  "sock_ready s =
     (case s of
        None \<Rightarrow> False
      | Some k \<Rightarrow> (case user k of None \<Rightarrow> False | Some u \<Rightarrow> user_id u \<noteq> []))"

definition sendMessagesOneAtATime ::
  "env \<Rightarrow> outbound option list \<Rightarrow> media_payload option \<Rightarrow> sock option \<Rightarrow> string
     \<Rightarrow> string option \<Rightarrow> timestamp option \<Rightarrow> world \<Rightarrow> (string \<times> world) + (world \<times> nat)" where
  "sendMessagesOneAtATime e messages mediaPayload sk instanceId filePath scheduleTime w =
     (if \<not> sock_ready sk then Inl (''WhatsApp connection not ready'', w)
      else send_loop e mediaPayload instanceId filePath scheduleTime w 0 messages)"

section \<open>The send-media endpoint and its quota gate (messages.js)\<close>

record send_media_request =
  req_instanceId :: string
  req_sock :: "sock option"
  req_messages :: "outbound option list"
  req_filePath :: "string option"
  req_scheduleTime :: "timestamp option"

text \<open>
  The responses of \<open>sendMedia\<close>, by their message; \<open>http_status\<close> is the status
  code each is sent with.
\<close>

datatype send_media_reply =
    MessagesRequired
  | NoActiveSubscription
  | LimitReached
  | CanOnlySend int
  | NotConnected
  | FileNotFound
  | FileTooLarge
  | MediaProcessingError string
  | Processed nat
  | FailedToSend string

fun http_status :: "send_media_reply \<Rightarrow> nat" where
  "http_status (Processed n) = 200"
| "http_status (FailedToSend e) = 500"
| "http_status r = 400"

text \<open>\<open>CURDATE()\<close>: the start of the day of \<open>NOW()\<close>.\<close>

definition curdate :: "timestamp \<Rightarrow> timestamp" where
  "curdate now = now - now mod 86400000"

text \<open>
  \<open>SELECT s.* FROM subscription s WHERE s.instance_id = ? AND s.date_expiry >= CURDATE()
  ORDER BY s.created_at DESC, s.id DESC LIMIT 1\<close>.
\<close>

definition newer :: "subscription_row \<Rightarrow> subscription_row \<Rightarrow> bool" where
  "newer a b = (sub_created_at a > sub_created_at b
                 \<or> (sub_created_at a = sub_created_at b \<and> sub_id a > sub_id b))"

fun newest :: "subscription_row list \<Rightarrow> subscription_row option" where
  "newest [] = None"
| "newest (s # ss) =
     (case newest ss of None \<Rightarrow> Some s | Some t \<Rightarrow> if newer t s then Some t else Some s)"

definition active_subscription :: "store \<Rightarrow> string \<Rightarrow> timestamp \<Rightarrow> subscription_row option" where
  "active_subscription st instanceId now =
     newest (filter (\<lambda>s. sub_instance_id s = instanceId
                          \<and> (case date_expiry s of None \<Rightarrow> False | Some d \<Rightarrow> curdate now \<le> d))
               (subscription st))"

text \<open>
  \<open>SELECT COUNT(*) FROM media_messages WHERE instance_id = ? AND created_at >= ?
  AND created_at <= COALESCE(?, NOW()) AND created_at >= (SELECT created_at FROM
  subscription WHERE instance_id = ? AND id = ?)\<close>, with the purchase and expiry dates
  of the subscription. The subquery selects by primary key; with no row it is
  \<open>NULL\<close> and the comparison holds for no message.
\<close>

definition messages_in_period :: "store \<Rightarrow> string \<Rightarrow> subscription_row \<Rightarrow> timestamp \<Rightarrow> nat" where
  "messages_in_period st instanceId sub now =
     (case filter (\<lambda>s. sub_instance_id s = instanceId \<and> sub_id s = sub_id sub) (subscription st) of
        [] \<Rightarrow> 0
      | s # _ \<Rightarrow>
          length (filter (\<lambda>m. instance_id m = Some instanceId
                               \<and> date_purchased sub \<le> created_at m
                               \<and> created_at m \<le> (case date_expiry sub of None \<Rightarrow> now | Some d \<Rightarrow> d)
                               \<and> sub_created_at s \<le> created_at m)
                    (media_messages st)))"

definition messagesRemaining :: "store \<Rightarrow> string \<Rightarrow> subscription_row \<Rightarrow> timestamp \<Rightarrow> int" where
  "messagesRemaining st instanceId sub now =
     num_messages sub - int (messages_in_period st instanceId sub now)"

text \<open>
  The media file: \<open>files\<close> gives, for a path that exists, its size in bytes, its
  lower-cased extension (\<open>path.extname\<close>) and its base name; a file that exists can
  be read.
\<close>

record file_info =
  file_size :: nat
  file_ext :: string
  file_base :: string

definition build_media_payload :: "file_info \<Rightarrow> string \<Rightarrow> media_payload" where
  "build_media_payload f cap =
     (if file_ext f \<in> {''.jpg'', ''.jpeg'', ''.png''}
      then \<lparr>kind = Image,
            mimetype = (if file_ext f = ''.png'' then ''image/png'' else ''image/jpeg''),
            fileName = None, payload_caption = cap, ptt = False\<rparr>
      else if file_ext f \<in> {''.mp4'', ''.mov''}
      then \<lparr>kind = Video,
            mimetype = (if file_ext f = ''.mp4'' then ''video/mp4'' else ''video/quicktime''),
            fileName = None, payload_caption = cap, ptt = False\<rparr>
      else if file_ext f \<in> {''.mp3'', ''.wav'', ''.ogg''}
      then \<lparr>kind = Audio,
            mimetype = (if file_ext f = ''.mp3'' then ''audio/mpeg''
                        else if file_ext f = ''.wav'' then ''audio/wav'' else ''audio/ogg''),
            fileName = None, payload_caption = cap, ptt = (file_ext f = ''.ogg'')\<rparr>
      else if file_ext f \<in> {''.pdf'', ''.doc'', ''.docx''}
      then \<lparr>kind = Document,
            mimetype = (if file_ext f = ''.pdf'' then ''application/pdf''
                        else if file_ext f = ''.doc'' then ''application/msword''
                        else ''application/vnd.openxmlformats-officedocument.wordprocessingml.document''),
            fileName = Some (file_base f), payload_caption = cap, ptt = False\<rparr>
      else \<lparr>kind = Document, mimetype = ''application/octet-stream'',
            fileName = Some (file_base f), payload_caption = cap, ptt = False\<rparr>)"

text \<open>
  The \<open>catch\<close> of \<open>sendMedia\<close>: one failed ledger row per recipient is logged (an
  error of the logging is swallowed, and so is the \<open>TypeError\<close> of
  \<open>messages.map(message => message.number)\<close> on a \<open>null\<close> element) and the
  answer is 500.
\<close>

definition log_failed_batch :: "env \<Rightarrow> send_media_request \<Rightarrow> world \<Rightarrow> world" where
  "log_failed_batch e req w =
     (if req_messages req = [] \<or> req_instanceId req = [] then w
      else
        (case those (req_messages req) of
           None \<Rightarrow> w
         | Some objs \<Rightarrow>
             (case logMediaMessageToDB (placeholders e) (w_store w) (w_now w) (req_instanceId req)
                     (map out_number objs) (out_text (hd objs)) (req_filePath req)
                     (out_caption (hd objs)) (req_scheduleTime req) ''failed'' None of
                Inl err \<Rightarrow> w
              | Inr (st', ids) \<Rightarrow> w\<lparr>w_store := st'\<rparr>)))"

definition sendMedia ::
  "env \<Rightarrow> (string \<Rightarrow> file_info option) \<Rightarrow> send_media_request \<Rightarrow> world
     \<Rightarrow> send_media_reply \<times> world" where
  "sendMedia e files req w =
     (if req_messages req = [] then (MessagesRequired, w)
      else if \<not> reachable (w_store w)
      then (FailedToSend ''query failed'', log_failed_batch e req w)
      else
        (case active_subscription (w_store w) (req_instanceId req) (w_now w) of
           None \<Rightarrow> (NoActiveSubscription, w)
         | Some sub \<Rightarrow>
             (let remaining = messagesRemaining (w_store w) (req_instanceId req) sub (w_now w)
              in if remaining \<le> 0 then (LimitReached, w)
                 else if int (length (req_messages req)) > remaining then (CanOnlySend remaining, w)
                 else if req_sock req = None then (NotConnected, w)
                 else
                   (case (case req_filePath req of
                            None \<Rightarrow> Inr None
                          | Some p \<Rightarrow>
                              if p = [] then Inr None
                              else
                                (case files p of
                                   None \<Rightarrow> Inl FileNotFound
                                 | Some f \<Rightarrow>
                                     if file_size f > 16 * (1024 * 1024) then Inl FileTooLarge
                                     else
                                       (case hd (req_messages req) of
                                          None \<Rightarrow>
                                            Inl (MediaProcessingError (TypeError_null ''caption''))
                                        | Some m0 \<Rightarrow>
                                            Inr (Some (build_media_payload f
                                                   (case out_caption m0 of
                                                      None \<Rightarrow> [] | Some c \<Rightarrow> c)))))) of
                      Inl reply \<Rightarrow> (reply, w)
                    | Inr mediaPayload \<Rightarrow>
                        (case sendMessagesOneAtATime e (req_messages req) mediaPayload (req_sock req)
                                (req_instanceId req) (req_filePath req) (req_scheduleTime req) w of
                           Inl (err, w') \<Rightarrow> (FailedToSend err, log_failed_batch e req w')
                         | Inr (w', totalSent) \<Rightarrow> (Processed totalSent, w'))))))"

section \<open>The scheduler (schedule.js)\<close>

text \<open>
  The rows of \<open>media_messages\<close> with \<open>message_status = 'pending'\<close> and
  \<open>schedule_time <= NOW()\<close>, each with its schedule time (a \<open>NULL\<close> time
  satisfies no comparison).
\<close>

definition due_rows :: "timestamp \<Rightarrow> media_message list \<Rightarrow> (timestamp \<times> media_message) list" where
  "due_rows now rows =
     List.map_filter
       (\<lambda>r. case schedule_time r of
                None \<Rightarrow> None
              | Some t \<Rightarrow> if message_status r = ''pending'' \<and> t \<le> now then Some (t, r) else None)
       rows"

text \<open>
  \<open>getPendingScheduledMessages\<close>: \<open>... ORDER BY schedule_time ASC LIMIT 50\<close>; the
  earlier version of the file has \<open>LIMIT 10\<close> (and the redundant
  \<open>schedule_time IS NOT NULL\<close>). Rows with equal times keep their storage order.
\<close>

definition pending_page :: "nat \<Rightarrow> store \<Rightarrow> timestamp \<Rightarrow> (timestamp \<times> media_message) list" where
  "pending_page limit st now = take limit (sort_key fst (due_rows now (media_messages st)))"

definition getPendingScheduledMessages :: "store \<Rightarrow> timestamp \<Rightarrow> db_error + media_message list" where
  "getPendingScheduledMessages st now =
     (if \<not> reachable st then Inl QueryFailed else Inr (map snd (pending_page 50 st now)))"

definition getPendingScheduledMessages_legacy ::
  "store \<Rightarrow> timestamp \<Rightarrow> db_error + media_message list" where
  "getPendingScheduledMessages_legacy st now =
     (if \<not> reachable st then Inl QueryFailed else Inr (map snd (pending_page 10 st now)))"

text \<open>
  \<open>updateScheduledMessageStatus\<close>: the status, and the transport message id when
  one is given.
\<close>

definition updateScheduledMessageStatus ::
  "store \<Rightarrow> nat \<Rightarrow> string \<Rightarrow> string option \<Rightarrow> db_error + store" where
  "updateScheduledMessageStatus st messageId status wid =
     (if \<not> reachable st then Inl QueryFailed
      else if truthy wid
      then Inr (st\<lparr>media_messages :=
                  map (\<lambda>r. if msg_id r = messageId
                            then r\<lparr>message_status := status, whatsapp_message_id := wid\<rparr>
                            else r) (media_messages st)\<rparr>)
      else Inr (st\<lparr>media_messages :=
                  set_status_where_id (Some messageId) status (media_messages st)\<rparr>))"

text \<open>
  \<open>sendMessage\<close> of the scheduler: up to \<open>retries = 3\<close> iterations; an iteration
  fails when the socket is not authenticated (no transport call), when the transport
  rejects, or when the result carries no message id; a failed iteration but the last
  sleeps \<open>min (1000 * 2 ^ i) 5000\<close> ms.
\<close>

definition retries :: nat where
  "retries = 3"

function sendMessage_from ::
  "(nat \<Rightarrow> send_outcome) \<Rightarrow> sock option \<Rightarrow> string \<Rightarrow> string option \<Rightarrow> world \<Rightarrow> nat
     \<Rightarrow> world \<times> bool \<times> string option" where
  "sendMessage_from tr sk jid msg w i =
     (if i < retries
      then
        (let attempt =
               (if \<not> sock_ready sk then (w, None)
                else
                  (w\<lparr>w_sends := Suc (w_sends w),
                     w_trace := w_trace w
                       @ [Attempt jid (TextContent (case msg of None \<Rightarrow> [] | Some t \<Rightarrow> t))]\<rparr>,
                   (case tr (w_sends w) of
                      SendOk (Some wid) \<Rightarrow> if wid = [] then None else Some wid
                    | _ \<Rightarrow> None)))
         in case attempt of
              (w1, Some wid) \<Rightarrow> (w1, True, Some wid)
            | (w1, None) \<Rightarrow>
                sendMessage_from tr sk jid msg
                  (if i < retries - 1 then sleep (min (1000 * 2 ^ i) 5000) w1 else w1) (Suc i))
      else (w, False, None))"
  by pat_completeness auto
termination
  by (relation "measure (\<lambda>(tr, sk, jid, msg, w, i). retries - i)") auto

definition sendMessage ::
  "(nat \<Rightarrow> send_outcome) \<Rightarrow> sock option \<Rightarrow> string \<Rightarrow> string option \<Rightarrow> world
     \<Rightarrow> world \<times> bool \<times> string option" where
  "sendMessage tr sk jid msg w = sendMessage_from tr sk jid msg w 0"

text \<open>
  The state of one scheduler tick: the world, the registry, and the ids of the
  messages whose \<open>sendMessage\<close> call has been made, in the order of the calls.
\<close>

record tick_state =
  ts_world :: world
  ts_instances :: registry
  ts_dispatched :: "nat list"

text \<open>\<open>message.recipient.replace(/[+\s-]/g, '')\<close>.\<close>

definition formatNumber :: "string \<Rightarrow> string" where
  "formatNumber r = filter (\<lambda>c. c \<noteq> CHR ''+'' \<and> c \<noteq> CHR ''-'' \<and> \<not> is_space c) r"

text \<open>
  The body of the inner loop for one message. The flag of the result says that an
  exception left the loops: the status update in the \<open>catch\<close> failed as well, and the
  error reaches the \<open>catch\<close> of the tick.
\<close>

definition process_scheduled ::
  "(nat \<Rightarrow> send_outcome) \<Rightarrow> sock option \<Rightarrow> tick_state \<Rightarrow> media_message \<Rightarrow> tick_state \<times> bool" where
  "process_scheduled tr sk s m =
     (let jid = formatNumber (recipient m) @ ''@s.whatsapp.net'';
          s1 = s\<lparr>ts_dispatched := ts_dispatched s @ [msg_id m]\<rparr>;
          (w1, success, wid) = sendMessage tr sk jid (message m) (ts_world s)
      in case updateScheduledMessageStatus (w_store w1) (msg_id m)
                (if success then ''sent'' else ''failed'') wid of
           Inr st \<Rightarrow> (s1\<lparr>ts_world := sleep 500 (w1\<lparr>w_store := st\<rparr>)\<rparr>, False)
         | Inl err \<Rightarrow>
             (case updateScheduledMessageStatus (w_store w1) (msg_id m) ''failed'' None of
                Inr st \<Rightarrow> (s1\<lparr>ts_world := w1\<lparr>w_store := st\<rparr>\<rparr>, False)
              | Inl err2 \<Rightarrow> (s1\<lparr>ts_world := w1\<rparr>, True)))"

fun process_group ::
  "(nat \<Rightarrow> send_outcome) \<Rightarrow> sock option \<Rightarrow> tick_state \<Rightarrow> media_message list \<Rightarrow> tick_state \<times> bool" where
  "process_group tr sk s [] = (s, False)"
| "process_group tr sk s (m # ms) =
     (case process_scheduled tr sk s m of
        (s', True) \<Rightarrow> (s', True)
      | (s', False) \<Rightarrow> process_group tr sk s' ms)"

text \<open>
  \<open>Object.entries(messagesByInstance)\<close>: the keys are the instance ids as strings
  (\<open>null\<close> for \<open>NULL\<close>); keys that are array indices come first in ascending numeric
  order, the others follow in the order of their first insertion.
\<close>

definition key_of :: "media_message \<Rightarrow> string" where
  "key_of m = (case instance_id m of None \<Rightarrow> ''null'' | Some i \<Rightarrow> i)"

definition is_digit :: "char \<Rightarrow> bool" where
  "is_digit c = (48 \<le> (of_char c :: nat) \<and> (of_char c :: nat) \<le> 57)"

definition nat_of_digits :: "string \<Rightarrow> nat" where
  "nat_of_digits s = foldl (\<lambda>n c. 10 * n + (of_char c - 48)) 0 s"

definition is_array_index :: "string \<Rightarrow> bool" where
  "is_array_index s =
     (s \<noteq> [] \<and> list_all is_digit s \<and> (s = ''0'' \<or> take 1 s \<noteq> ''0'')
      \<and> nat_of_digits s < 4294967295)"

definition entries_order :: "string list \<Rightarrow> string list" where
  "entries_order keys =
     (let ks = rev (remdups (rev keys))
      in sort_key nat_of_digits (filter is_array_index ks)
         @ filter (\<lambda>k. \<not> is_array_index k) ks)"

definition usable :: "instance_entry option \<Rightarrow> bool" where
  "usable inst =
     (case inst of None \<Rightarrow> False
      | Some e \<Rightarrow> entry_sock e \<noteq> None \<and> entry_status e = ''connected'')"

text \<open>
  The outer loop over the instances. \<open>connect\<close> stands for awaiting
  \<open>initializeSock(instanceId)\<close>: whether the promise resolved, and the registry as
  the connection events left it. An instance that is still not usable is skipped.
\<close>

fun process_instances ::
  "(string \<Rightarrow> registry \<Rightarrow> bool \<times> registry) \<Rightarrow> (nat \<Rightarrow> send_outcome) \<Rightarrow> media_message list
     \<Rightarrow> tick_state \<Rightarrow> string list \<Rightarrow> tick_state \<times> bool" where
  "process_instances connect tr page s [] = (s, False)"
| "process_instances connect tr page s (instanceId # rest) =
     (if instanceId = [] then process_instances connect tr page s rest
      else
        (let messages = filter (\<lambda>m. key_of m = instanceId) page;
             s1 = (if usable (ts_instances s instanceId) then s
                   else s\<lparr>ts_instances := snd (connect instanceId (ts_instances s))\<rparr>);
             go = (usable (ts_instances s instanceId)
                   \<or> (fst (connect instanceId (ts_instances s))
                       \<and> usable (ts_instances s1 instanceId)))
         in if \<not> go then process_instances connect tr page s1 rest
            else
              (case process_group tr
                      (case ts_instances s1 instanceId of None \<Rightarrow> None | Some en \<Rightarrow> entry_sock en)
                      s1 messages of
                 (s2, True) \<Rightarrow> (s2, True)
               | (s2, False) \<Rightarrow> process_instances connect tr page s2 rest)))"

text \<open>
  The grouping \<open>pendingMessages.forEach(...)\<close> fills the plain object
  \<open>messagesByInstance\<close>. For a message whose key names a member of
  \<open>Object.prototype\<close> the test \<open>!messagesByInstance[key]\<close> is false, no array is
  stored, and \<open>messagesByInstance[key].push\<close> is not a function: the \<open>TypeError\<close>
  leaves \<open>forEach\<close> before any instance is processed.
\<close>

definition grouping_throws :: "media_message list \<Rightarrow> bool" where
  "grouping_throws pendingMessages =
     list_ex (\<lambda>m. key_of m \<in> set Object_prototype_names) pendingMessages"

text \<open>One tick of the scheduler; every error ends in the \<open>catch\<close> of the tick.\<close>

definition scheduler_tick ::
  "(string \<Rightarrow> registry \<Rightarrow> bool \<times> registry) \<Rightarrow> (nat \<Rightarrow> send_outcome) \<Rightarrow> tick_state \<Rightarrow> tick_state" where
  "scheduler_tick connect tr s =
     (case getPendingScheduledMessages (w_store (ts_world s)) (w_now (ts_world s)) of
        Inl err \<Rightarrow> s
      | Inr pendingMessages \<Rightarrow>
          if pendingMessages = [] then s
          else if grouping_throws pendingMessages then s
          else fst (process_instances connect tr pendingMessages s
                      (entries_order (map key_of pendingMessages))))"

section \<open>The copy of updateStatus.js in subscription.js\<close>





section \<open>Concrete inputs\<close>

definition ex_row :: media_message where
  "ex_row = \<lparr>msg_id = 1, instance_id = Some ''i1'', recipient = ''911'', message = Some ''hi'',
     media = None, caption = None, schedule_time = None, message_status = ''sent'',
     whatsapp_message_id = Some ''W1'', created_at = 1000\<rparr>"

definition ex_store :: store where
  "ex_store = \<lparr>media_messages = [ex_row], report_time = [], subscription = [], reachable = True\<rparr>"

definition ex_update :: "string \<Rightarrow> js_status \<Rightarrow> wa_update" where
  "ex_update w c = \<lparr>msg_key = Some \<lparr>key_id = w, remoteJid = ''911@s.whatsapp.net''\<rparr>,
     msg_update = Some (Some c), msg_receipt = None\<rparr>"

text \<open>
  The relation between a row before and after a batch of receipt events that the
  monotonicity property is about: the same message, and not moved to \<open>pending\<close> from
  another status.
\<close>

definition keeps_non_pending :: "media_message \<Rightarrow> media_message \<Rightarrow> bool" where
  "keeps_non_pending r r' =
     (msg_id r' = msg_id r \<and> (message_status r \<noteq> ''pending'' \<longrightarrow> message_status r' \<noteq> ''pending''))"

definition ex_report :: report_time_row where
  "ex_report = \<lparr>rt_instance_id = ''i1'', rt_recipient = ''911'', rt_whatsapp_message_id = ''W1'',
     initiated_time = Some 1000, sent_time = Some 1000, delivered_time = Some 2000,
     read_time = Some 3000, failed_time = None, rt_created_at = 1000\<rparr>"

definition ex_store_read :: store where
  "ex_store_read = \<lparr>media_messages = [ex_row\<lparr>message_status := ''read''\<rparr>],
     report_time = [ex_report], subscription = [], reachable = True\<rparr>"

definition ex_sock :: sock where
  "ex_sock = \<lparr>handle = 7, user = Some \<lparr>user_id = ''911@s.whatsapp.net''\<rparr>\<rparr>"

definition ex_registry :: registry where
  "ex_registry = [''i1'' \<mapsto> \<lparr>entry_sock = Some ex_sock, qrCode = None,
                                entry_status = ''reconnecting'', lastUpdate = 1000\<rparr>,
                  ''i2'' \<mapsto> \<lparr>entry_sock = Some \<lparr>handle = 8, user = None\<rparr>, qrCode = None,
                                entry_status = ''connected'', lastUpdate = 2000\<rparr>]"

definition ex_call :: init_call where
  "ex_call = \<lparr>call_instanceId = ''i1'', call_sock = ex_sock, hasResolved = True,
     connectionPromise = Resolved Connected, timeoutCleared = True\<rparr>"

definition ex_supervisor :: supervisor where
  "ex_supervisor = \<lparr>instances = ex_registry, timers = [], credsSaved = 1\<rparr>"

definition ex_close :: "int option \<Rightarrow> connection_update" where
  "ex_close code = \<lparr>connection = Some ''close'', qr = None, disconnect_code = code\<rparr>"

definition ex_env :: env where
  "ex_env = \<lparr>transport = (\<lambda>n. SendOk (Some ''WID'')), placeholders = (\<lambda>t p i. t),
              random500 = (\<lambda>n. 0)\<rparr>"

definition ex_world :: world where
  "ex_world = \<lparr>w_store = \<lparr>media_messages = [], report_time = [], subscription = [],
                             reachable = True\<rparr>,
                w_now = 1000, w_sends = 0, w_trace = []\<rparr>"

definition ex_empty_message :: outbound where
  "ex_empty_message = \<lparr>out_number = ''911'', out_text = None, out_caption = None\<rparr>"

definition ex_hello :: outbound where
  "ex_hello = \<lparr>out_number = ''912'', out_text = Some ''hello'', out_caption = None\<rparr>"
text \<open>
  What a failed send looks like at the transport: the call resolved without a message,
  or it was rejected, and a timeout rejection only after the last permitted retry, the
  three calls before it having timed out as well.
\<close>

definition send_failed_at :: "(nat \<Rightarrow> send_outcome) \<Rightarrow> nat \<Rightarrow> nat \<Rightarrow> bool" where
  "send_failed_at tr k_first k_last =
     (tr k_last = SendOk None
      \<or> (\<exists>e. tr k_last = SendErr e
            \<and> (e = ''Timed Out'' \<longrightarrow> k_first + MAX_RETRIES = k_last
                  \<and> (\<forall>j < MAX_RETRIES. tr (k_first + j) = SendErr ''Timed Out''))))"

definition ex_env_retry :: env where
  "ex_env_retry = \<lparr>transport = (\<lambda>n. if n < 2 then SendErr ''Timed Out'' else SendOk (Some ''WID'')),
                    placeholders = (\<lambda>t p i. t), random500 = (\<lambda>n. 0)\<rparr>"

definition ex_subscription :: subscription_row where
  "ex_subscription = \<lparr>sub_id = 1, sub_instance_id = ''i1'', date_purchased = 0,
     date_expiry = Some 864000000, num_messages = 2, sub_created_at = 500\<rparr>"

definition ex_world_quota :: world where
  "ex_world_quota = \<lparr>w_store = \<lparr>media_messages = [ex_row], report_time = [],
                                   subscription = [ex_subscription], reachable = True\<rparr>,
                      w_now = 5000, w_sends = 0, w_trace = []\<rparr>"

definition ex_request :: send_media_request where
  "ex_request = \<lparr>req_instanceId = ''i1'', req_sock = Some ex_sock,
                  req_messages = [Some ex_hello, Some ex_empty_message], req_filePath = None,
                  req_scheduleTime = None\<rparr>"

definition ex_late :: media_message where
  "ex_late = \<lparr>msg_id = 1, instance_id = Some ''i1'', recipient = ''+91 1'', message = Some ''late'',
     media = None, caption = None, schedule_time = Some 3000, message_status = ''pending'',
     whatsapp_message_id = None, created_at = 100\<rparr>"

definition ex_early :: media_message where
  "ex_early = \<lparr>msg_id = 2, instance_id = Some ''i1'', recipient = ''+91 2'', message = Some ''early'',
     media = None, caption = None, schedule_time = Some 2000, message_status = ''pending'',
     whatsapp_message_id = None, created_at = 200\<rparr>"

definition ex_tick_state :: tick_state where
  "ex_tick_state =
     \<lparr>ts_world = \<lparr>w_store = \<lparr>media_messages = [ex_late, ex_early], report_time = [],
                               subscription = [], reachable = True\<rparr>,
                  w_now = 5000, w_sends = 0, w_trace = []\<rparr>,
      ts_instances = [''i1'' \<mapsto> \<lparr>entry_sock = Some ex_sock, qrCode = None,
                                   entry_status = ''connected'', lastUpdate = 1000\<rparr>],
      ts_dispatched = []\<rparr>"








section \<open>Properties of receipt reconciliation\<close>

lemmas ex_defs = ex_row_def ex_store_def ex_update_def

lemma mapStatusCode_valid: "mapStatusCode c \<in> set MESSAGE_STATUS"
  by (simp add: mapStatusCode_def MESSAGE_STATUS_def)

lemma mapStatusCode_pending_iff:
  "(mapStatusCode c = ''pending'') = (c = SNum 1 \<or> c = SStr ''PENDING'')"
  by (simp add: mapStatusCode_def)

lemma updateMessageStatusInDB_valid:
  "reachable st \<Longrightarrow> s \<in> set MESSAGE_STATUS \<Longrightarrow>
   fst (updateMessageStatusInDB st i s) =
     Inr (st\<lparr>media_messages := set_status_where_id i s (media_messages st)\<rparr>)"
  by (simp add: updateMessageStatusInDB_def Let_def)

lemma getDatabaseId_unmatched:
  "\<forall>r \<in> set (media_messages st).
      \<not> (instance_id r = Some inst \<and> whatsapp_message_id r = Some mid)
   \<Longrightarrow> fst (getDatabaseId st inst mid) = (False, None)"
  by (simp add: getDatabaseId_def split: list.splits)

lemma processMessageUpdate_found:
  assumes "reachable st" "msg_key u = Some k" "msg_update u = Some (Some c)"
    "fst (getDatabaseId st inst (key_id k)) = (True, i)"
  shows "fst (processMessageUpdate st inst u) =
     Inr (st\<lparr>media_messages := set_status_where_id i (mapStatusCode c) (media_messages st)\<rparr>)"
  using assms updateMessageStatusInDB_valid[OF assms(1) mapStatusCode_valid, of i c]
  by (auto simp: processMessageUpdate_def Let_def split: prod.splits sum.splits)

lemma processMessageUpdate_unmatched:
  assumes "msg_key u = Some k" "msg_update u = Some (Some c)"
    "\<forall>r \<in> set (media_messages st).
        \<not> (instance_id r = Some inst \<and> whatsapp_message_id r = Some (key_id k))"
  shows "\<exists>lg. processMessageUpdate st inst u =
           (Inr st, lg @ [LogWarn ''Message not found in database:''])"
  using assms getDatabaseId_unmatched[OF assms(3)]
  by (auto simp: processMessageUpdate_def Let_def split: prod.splits sum.splits)

text \<open>
  C3. The receipt handler maps the transport status code to the canonical status as
  1 or 'PENDING' to pending, 3 to delivered, 4 to read, -1 to failed and every other
  code to sent, and writes that status to the tracked message; when no stored message
  matches the instance id and the transport message id, the event is logged (a warning)
  and dropped: the store is returned unchanged and no error is raised.
\<close>

theorem C3_status_code_mapping:
  "mapStatusCode (SNum 1) = ''pending'' \<and> mapStatusCode (SStr ''PENDING'') = ''pending''
   \<and> mapStatusCode (SNum 3) = ''delivered'' \<and> mapStatusCode (SNum 4) = ''read''
   \<and> mapStatusCode (SNum (- 1)) = ''failed''
   \<and> (c \<notin> {SNum 1, SStr ''PENDING'', SNum 3, SNum 4, SNum (- 1)} \<longrightarrow> mapStatusCode c = ''sent'')
   \<and> (reachable st \<and> msg_key u = Some k \<and> msg_update u = Some (Some c)
        \<and> fst (getDatabaseId st inst (key_id k)) = (True, i)
      \<longrightarrow> fst (processMessageUpdate st inst u) =
            Inr (st\<lparr>media_messages := set_status_where_id i (mapStatusCode c) (media_messages st)\<rparr>))
   \<and> (msg_key u = Some k \<and> msg_update u = Some (Some c)
        \<and> (\<forall>r \<in> set (media_messages st).
              \<not> (instance_id r = Some inst \<and> whatsapp_message_id r = Some (key_id k)))
      \<longrightarrow> (\<exists>lg. processMessageUpdate st inst u =
                  (Inr st, lg @ [LogWarn ''Message not found in database:''])))"
proof -
  have codes: "mapStatusCode (SNum 1) = ''pending'' \<and> mapStatusCode (SStr ''PENDING'') = ''pending''
     \<and> mapStatusCode (SNum 3) = ''delivered'' \<and> mapStatusCode (SNum 4) = ''read''
     \<and> mapStatusCode (SNum (- 1)) = ''failed''"
    by (simp add: mapStatusCode_def)
  have other: "c \<notin> {SNum 1, SStr ''PENDING'', SNum 3, SNum 4, SNum (- 1)} \<longrightarrow> mapStatusCode c = ''sent''"
    by (simp add: mapStatusCode_def)
  from codes other processMessageUpdate_found[of st u k c inst i]
    processMessageUpdate_unmatched[of u k c st inst]
  show ?thesis by blast
qed

theorem C3_status_code_mapping_witness:
  "SNum 99 \<notin> {SNum 1, SStr ''PENDING'', SNum 3, SNum 4, SNum (- 1)}
   \<and> mapStatusCode (SNum 99) = ''sent''
   \<and> fst (getDatabaseId ex_store ''i1'' ''W1'') = (True, Some 1)
   \<and> fst (processMessageUpdate ex_store ''i1'' (ex_update ''W1'' (SNum 99))) =
        Inr (ex_store\<lparr>media_messages := [ex_row\<lparr>message_status := ''sent''\<rparr>]\<rparr>)
   \<and> (\<exists>lg. processMessageUpdate ex_store ''i1'' (ex_update ''W2'' (SNum 99)) =
              (Inr ex_store, lg @ [LogWarn ''Message not found in database:'']))"
proof -
  have f: "fst (getDatabaseId ex_store ''i1'' ''W1'') = (True, Some 1)"
    by (simp add: getDatabaseId_def ex_defs)
  have u: "\<forall>r \<in> set (media_messages ex_store).
      \<not> (instance_id r = Some ''i1'' \<and> whatsapp_message_id r = Some ''W2'')"
    by (simp add: ex_defs)
  have s: "set_status_where_id (Some 1) ''sent'' [ex_row] = [ex_row\<lparr>message_status := ''sent''\<rparr>]"
    by (simp add: set_status_where_id_def ex_defs)
  from C3_status_code_mapping[of "SNum 99" ex_store "ex_update ''W1'' (SNum 99)"
      "\<lparr>key_id = ''W1'', remoteJid = ''911@s.whatsapp.net''\<rparr>" "''i1''" "Some 1"]
    C3_status_code_mapping[of "SNum 99" ex_store "ex_update ''W2'' (SNum 99)"
      "\<lparr>key_id = ''W2'', remoteJid = ''911@s.whatsapp.net''\<rparr>" "''i1''" "None"]
    f u s
  show ?thesis by (simp add: ex_defs)
qed

lemma set_status_keeps_non_pending:
  "s \<noteq> ''pending'' \<Longrightarrow>
   list_all2 keeps_non_pending
     rows (set_status_where_id i s rows)"
  by (induction rows) (simp_all add: set_status_where_id_def keeps_non_pending_def)

lemma keeps_refl:
  "list_all2 keeps_non_pending rows rows"
  by (simp add: list_all2_same keeps_non_pending_def)

lemma keeps_trans:
  "list_all2 keeps_non_pending a b \<Longrightarrow>
   list_all2 keeps_non_pending b c \<Longrightarrow>
   list_all2 keeps_non_pending a c"
  by (erule (1) list_all2_trans[rotated]) (auto simp: keeps_non_pending_def)

lemma updateMessageStatusInDB_keeps:
  assumes "s \<noteq> ''pending''" "fst (updateMessageStatusInDB st i s) = Inr st'"
  shows "list_all2 keeps_non_pending
     (media_messages st) (media_messages st')"
  using assms set_status_keeps_non_pending[of s "media_messages st" i]
    set_status_keeps_non_pending[of "''sent''" "media_messages st" i]
  by (auto simp: updateMessageStatusInDB_def Let_def split: if_splits)

lemma processMessageUpdate_keeps:
  assumes "msg_update u \<noteq> Some (Some (SNum 1))" "msg_update u \<noteq> Some (Some (SStr ''PENDING''))"
    "fst (processMessageUpdate st inst u) = Inr st'"
  shows "list_all2 keeps_non_pending
     (media_messages st) (media_messages st')"
proof (cases "\<exists>k c. msg_key u = Some k \<and> msg_update u = Some (Some c) \<and> fst (fst (getDatabaseId st inst (key_id k)))")
  case True
  then obtain k c where kc: "msg_key u = Some k" "msg_update u = Some (Some c)"
    "fst (fst (getDatabaseId st inst (key_id k)))" by blast
  from kc assms(1,2) have np: "mapStatusCode c \<noteq> ''pending''"
    by (auto simp: mapStatusCode_pending_iff)
  from kc assms(3) have "fst (updateMessageStatusInDB st (snd (fst (getDatabaseId st inst (key_id k)))) (mapStatusCode c)) = Inr st'"
    by (auto simp: processMessageUpdate_def Let_def split: prod.splits sum.splits)
  from updateMessageStatusInDB_keeps[OF np this] show ?thesis .
next
  case False
  with assms(3) have "st' = st"
    by (auto simp: processMessageUpdate_def Let_def split: option.splits prod.splits sum.splits if_splits)
  then show ?thesis by (simp add: keeps_refl)
qed

lemma processReceiptUpdate_keeps:
  assumes "fst (processReceiptUpdate st inst u) = Inr st'"
  shows "list_all2 keeps_non_pending
     (media_messages st) (media_messages st')"
proof (cases "\<exists>k ty. msg_key u = Some k \<and> msg_receipt u = Some ty \<and> fst (fst (getDatabaseId st inst (key_id k)))")
  case True
  then obtain k ty where kc: "msg_key u = Some k" "msg_receipt u = Some ty"
    "fst (fst (getDatabaseId st inst (key_id k)))" by blast
  have np: "(if ty = ''read'' then ''read'' else ''delivered'') \<noteq> ''pending''" by simp
  from kc assms have "fst (updateMessageStatusInDB st (snd (fst (getDatabaseId st inst (key_id k)))) (if ty = ''read'' then ''read'' else ''delivered'')) = Inr st'"
    by (auto simp: processReceiptUpdate_def Let_def split: prod.splits sum.splits)
  from updateMessageStatusInDB_keeps[OF np this] show ?thesis .
next
  case False
  with assms have "st' = st"
    by (auto simp: processReceiptUpdate_def Let_def split: option.splits prod.splits sum.splits if_splits)
  then show ?thesis by (simp add: keeps_refl)
qed

lemma forEachUpdate_keeps:
  assumes step: "\<And>st u st'. u \<in> set us \<Longrightarrow> fst (f st inst u) = Inr st' \<Longrightarrow>
     list_all2 keeps_non_pending
       (media_messages st) (media_messages st')"
    and "fst (forEachUpdate f st inst us) = Inr st'"
  shows "list_all2 keeps_non_pending
       (media_messages st) (media_messages st')"
  using assms
proof (induction us arbitrary: st)
  case Nil
  then show ?case by (simp add: keeps_refl)
next
  case (Cons u us)
  from Cons.prems(2) obtain st1 lg where s1: "f st inst u = (Inr st1, lg)"
    and rest: "fst (forEachUpdate f st1 inst us) = Inr st'"
    by (auto split: prod.splits sum.splits)
  have a: "list_all2 keeps_non_pending
       (media_messages st) (media_messages st1)"
    using Cons.prems(1)[of u st st1] s1 by simp
  have b: "list_all2 keeps_non_pending
       (media_messages st1) (media_messages st')"
  proof (rule Cons.IH[OF _ rest])
    fix u' s s' assume "u' \<in> set us" "fst (f s inst u') = Inr s'"
    then show "list_all2 keeps_non_pending (media_messages s) (media_messages s')"
      using Cons.prems(1)[of u' s s'] by simp
  qed
  from keeps_trans[OF a b] show ?case .
qed

text \<open>
  C1 (as the code has it). The handler writes the status mapped from each event
  unconditionally, so the last event wins: after a tracked \<open>messages.update\<close> event
  with status code \<open>c\<close> the message has status \<open>mapStatusCode c\<close> whatever it had
  before (also when it was failed). That status is pending exactly for the codes 1 and
  'PENDING'. A batch of \<open>messages.update\<close> events none of which carries one of these
  two codes, and any batch of \<open>receipt.update\<close> events, moves no message from another
  status to pending.
\<close>

theorem C1_last_receipt_wins:
  "(reachable st \<and> msg_key u = Some k \<and> msg_update u = Some (Some c)
      \<and> fst (getDatabaseId st inst (key_id k)) = (True, i)
    \<longrightarrow> fst (processMessageUpdate st inst u) =
          Inr (st\<lparr>media_messages := set_status_where_id i (mapStatusCode c) (media_messages st)\<rparr>))
   \<and> ((mapStatusCode c = ''pending'') = (c = SNum 1 \<or> c = SStr ''PENDING''))
   \<and> ((\<forall>u \<in> set us. msg_update u \<noteq> Some (Some (SNum 1))
                      \<and> msg_update u \<noteq> Some (Some (SStr ''PENDING'')))
        \<and> fst (onMessagesUpdate st inst us) = Inr st'
      \<longrightarrow> list_all2 keeps_non_pending (media_messages st) (media_messages st'))
   \<and> (fst (onReceiptUpdate st inst us) = Inr st'
      \<longrightarrow> list_all2 keeps_non_pending (media_messages st) (media_messages st'))"
proof -
  have m: "(\<forall>u \<in> set us. msg_update u \<noteq> Some (Some (SNum 1))
                      \<and> msg_update u \<noteq> Some (Some (SStr ''PENDING'')))
        \<and> fst (onMessagesUpdate st inst us) = Inr st'
      \<longrightarrow> list_all2 keeps_non_pending (media_messages st) (media_messages st')"
  proof (intro impI, elim conjE)
    assume codes: "\<forall>u \<in> set us. msg_update u \<noteq> Some (Some (SNum 1))
                      \<and> msg_update u \<noteq> Some (Some (SStr ''PENDING''))"
      and res: "fst (onMessagesUpdate st inst us) = Inr st'"
    from res have r: "fst (forEachUpdate processMessageUpdate st inst us) = Inr st'"
      by (simp add: onMessagesUpdate_def split: prod.splits)
    show "list_all2 keeps_non_pending (media_messages st) (media_messages st')"
    proof (rule forEachUpdate_keeps[OF _ r])
      fix s u s' assume "u \<in> set us" "fst (processMessageUpdate s inst u) = Inr s'"
      with codes show "list_all2 keeps_non_pending (media_messages s) (media_messages s')"
        using processMessageUpdate_keeps[of u s inst s'] by blast
    qed
  qed
  have r: "fst (onReceiptUpdate st inst us) = Inr st'
      \<longrightarrow> list_all2 keeps_non_pending (media_messages st) (media_messages st')"
  proof
    assume "fst (onReceiptUpdate st inst us) = Inr st'"
    then have r: "fst (forEachUpdate processReceiptUpdate st inst us) = Inr st'"
      by (simp add: onReceiptUpdate_def split: prod.splits)
    show "list_all2 keeps_non_pending (media_messages st) (media_messages st')"
      by (rule forEachUpdate_keeps[OF _ r]) (rule processReceiptUpdate_keeps)
  qed
  from m r processMessageUpdate_found[of st u k c inst i] mapStatusCode_pending_iff[of c]
  show ?thesis by blast
qed

theorem C1_last_receipt_wins_witness:
  "fst (getDatabaseId ex_store ''i1'' ''W1'') = (True, Some 1)
   \<and> fst (processMessageUpdate ex_store ''i1'' (ex_update ''W1'' (SNum 4))) =
        Inr (ex_store\<lparr>media_messages := [ex_row\<lparr>message_status := ''read''\<rparr>]\<rparr>)
   \<and> fst (onMessagesUpdate ex_store ''i1'' [ex_update ''W1'' (SNum 4)]) =
        Inr (ex_store\<lparr>media_messages := [ex_row\<lparr>message_status := ''read''\<rparr>]\<rparr>)
   \<and> list_all2 keeps_non_pending [ex_row] [ex_row\<lparr>message_status := ''read''\<rparr>]"
proof -
  have f: "fst (getDatabaseId ex_store ''i1'' ''W1'') = (True, Some 1)"
    by (simp add: getDatabaseId_def ex_defs)
  have s: "set_status_where_id (Some 1) ''read'' [ex_row] = [ex_row\<lparr>message_status := ''read''\<rparr>]"
    by (simp add: set_status_where_id_def ex_defs)
  have p: "fst (processMessageUpdate ex_store ''i1'' (ex_update ''W1'' (SNum 4))) =
        Inr (ex_store\<lparr>media_messages := [ex_row\<lparr>message_status := ''read''\<rparr>]\<rparr>)"
    using C1_last_receipt_wins[of ex_store "ex_update ''W1'' (SNum 4)"
      "\<lparr>key_id = ''W1'', remoteJid = ''911@s.whatsapp.net''\<rparr>" "SNum 4" "''i1''" "Some 1"] f s
    by (simp add: ex_defs mapStatusCode_def)
  then have b: "fst (onMessagesUpdate ex_store ''i1'' [ex_update ''W1'' (SNum 4)]) =
        Inr (ex_store\<lparr>media_messages := [ex_row\<lparr>message_status := ''read''\<rparr>]\<rparr>)"
    by (auto simp: onMessagesUpdate_def split: prod.splits sum.splits)
  have c: "\<forall>u \<in> set [ex_update ''W1'' (SNum 4)]. msg_update u \<noteq> Some (Some (SNum 1))
                      \<and> msg_update u \<noteq> Some (Some (SStr ''PENDING''))"
    by (simp add: ex_defs)
  from C1_last_receipt_wins[where st = ex_store and inst = "''i1''"
      and us = "[ex_update ''W1'' (SNum 4)]"
      and st' = "ex_store\<lparr>media_messages := [ex_row\<lparr>message_status := ''read''\<rparr>]\<rparr>"] b c
  have "list_all2 keeps_non_pending [ex_row] [ex_row\<lparr>message_status := ''read''\<rparr>]"
    by (simp add: ex_store_def)
  with f p b show ?thesis by simp
qed

theorem C1_counterexample:
  "message_status ex_row = ''sent''
   \<and> fst (onMessagesUpdate ex_store ''i1'' [ex_update ''W1'' (SNum 1)]) =
        Inr (ex_store\<lparr>media_messages := [ex_row\<lparr>message_status := ''pending''\<rparr>]\<rparr>)
   \<and> fst (onMessagesUpdate (ex_store\<lparr>media_messages := [ex_row\<lparr>message_status := ''failed''\<rparr>]\<rparr>)
            ''i1'' [ex_update ''W1'' (SNum 3)]) =
        Inr (ex_store\<lparr>media_messages := [ex_row\<lparr>message_status := ''delivered''\<rparr>]\<rparr>)"
  by (simp add: onMessagesUpdate_def processMessageUpdate_def getDatabaseId_def
      updateMessageStatusInDB_def set_status_where_id_def rows_where_id_def mapStatusCode_def
      MESSAGE_STATUS_def ex_defs Let_def)

section \<open>Properties of the message ledger\<close>

lemma insert_messages_rows:
  "reachable st \<Longrightarrow>
   \<exists>st' ids new. insert_messages fill st now inst msg med cap sch status wid phones = Inr (st', ids)
      \<and> media_messages st' = media_messages st @ new \<and> length new = length phones
      \<and> length ids = length phones
      \<and> (\<forall>r \<in> set new. message_status r = status) \<and> reachable st'
      \<and> report_time st' = report_time st \<and> subscription st' = subscription st"
proof (induction phones arbitrary: st)
  case Nil
  then show ?case by simp
next
  case (Cons p ps)
  let ?row = "\<lparr>msg_id = next_id (media_messages st),
                    instance_id = (if inst = [] then None else Some inst),
                    recipient = p,
                    message = or_null (replacePlaceholders fill st msg p inst),
                    media = or_null med,
                    caption = or_null (if truthy cap then replacePlaceholders fill st cap p inst else None),
                    schedule_time = formatScheduledAt sch,
                    message_status = status,
                    whatsapp_message_id = or_null wid,
                    created_at = now\<rparr>"
  let ?st1 = "st\<lparr>media_messages := media_messages st @ [?row]\<rparr>"
  have "reachable ?st1" using Cons.prems by simp
  from Cons.IH[OF this] obtain st' ids new where
    r: "insert_messages fill ?st1 now inst msg med cap sch status wid ps = Inr (st', ids)"
    and m: "media_messages st' = media_messages ?st1 @ new" and l: "length new = length ps"
    and li: "length ids = length ps"
    and s: "\<forall>r \<in> set new. message_status r = status" and re: "reachable st'"
    and o: "report_time st' = report_time ?st1" "subscription st' = subscription ?st1"
    by blast
  have "insert_messages fill st now inst msg med cap sch status wid (p # ps)
      = Inr (st', next_id (media_messages st) # ids)"
    using Cons.prems r by (simp add: Let_def)
  moreover have "media_messages st' = media_messages st @ (?row # new)" using m by simp
  moreover have "length (?row # new) = length (p # ps)" using l by simp
  moreover have "\<forall>r \<in> set (?row # new). message_status r = status" using s by simp
  ultimately show ?case using re o li
    by (intro exI[of _ st'] exI[of _ "next_id (media_messages st) # ids"] exI[of _ "?row # new"]) simp
qed

text \<open>
  C9. For every call of \<open>logMediaMessageToDB\<close> (both versions), a status argument
  outside sent, delivered, read, failed, pending is replaced by \<open>sent\<close> before the
  insert: the call behaves exactly as if \<open>sent\<close> had been passed, it is not rejected,
  and every row it inserts is recorded as sent.
\<close>

theorem C9_unknown_status_logged_as_sent:
  assumes "messageStatus \<notin> set validMessageStatus"
  shows "logMediaMessageToDB fill st now inst phones msg med cap sch messageStatus wid
           = logMediaMessageToDB fill st now inst phones msg med cap sch ''sent'' wid
       \<and> logMediaMessageToDB_legacy st now inst phones msg med cap sch messageStatus wid
           = logMediaMessageToDB_legacy st now inst phones msg med cap sch ''sent'' wid
       \<and> (reachable st \<longrightarrow>
            (\<exists>st' ids new. logMediaMessageToDB fill st now inst phones msg med cap sch messageStatus wid
                             = Inr (st', ids)
               \<and> media_messages st' = media_messages st @ new \<and> length new = length phones
               \<and> (\<forall>r \<in> set new. message_status r = ''sent''))
          \<and> (\<exists>st' i r. logMediaMessageToDB_legacy st now inst phones msg med cap sch messageStatus wid
                             = Inr (st', i)
               \<and> media_messages st' = media_messages st @ [r] \<and> message_status r = ''sent''))"
proof -
  have a: "logMediaMessageToDB fill st now inst phones msg med cap sch messageStatus wid
           = logMediaMessageToDB fill st now inst phones msg med cap sch ''sent'' wid"
    using assms by (simp add: logMediaMessageToDB_def validMessageStatus_def)
  have b: "logMediaMessageToDB_legacy st now inst phones msg med cap sch messageStatus wid
           = logMediaMessageToDB_legacy st now inst phones msg med cap sch ''sent'' wid"
    using assms by (simp add: logMediaMessageToDB_legacy_def validMessageStatus_def)
  have c: "\<exists>st' ids new. logMediaMessageToDB fill st now inst phones msg med cap sch messageStatus wid
                             = Inr (st', ids)
               \<and> media_messages st' = media_messages st @ new \<and> length new = length phones
               \<and> (\<forall>r \<in> set new. message_status r = ''sent'')" if re: "reachable st"
  proof -
    from insert_messages_rows[OF re, of fill now inst msg med cap sch "''sent''" wid phones]
    obtain st' ids new where
      r: "insert_messages fill st now inst msg med cap sch ''sent'' wid phones = Inr (st', ids)"
      and m: "media_messages st' = media_messages st @ new" "length new = length phones"
        "\<forall>r \<in> set new. message_status r = ''sent''" by blast
    from r assms have "logMediaMessageToDB fill st now inst phones msg med cap sch messageStatus wid
        = Inr (st', case ids of [i] \<Rightarrow> One i | _ \<Rightarrow> Many ids)"
      by (simp add: logMediaMessageToDB_def)
    with m show ?thesis by blast
  qed
  have d: "\<exists>st' i r. logMediaMessageToDB_legacy st now inst phones msg med cap sch messageStatus wid
                             = Inr (st', i)
               \<and> media_messages st' = media_messages st @ [r] \<and> message_status r = ''sent''"
    if re: "reachable st"
    using re assms by (simp add: logMediaMessageToDB_legacy_def Let_def)
  from a b c d show ?thesis by blast
qed

theorem C9_unknown_status_logged_as_sent_witness:
  "''queued'' \<notin> set validMessageStatus \<and> reachable ex_store
   \<and> logMediaMessageToDB (\<lambda>t p i. t) ex_store 5000 ''i1'' [''912''] (Some ''yo'') None None None
        ''queued'' None
      = Inr (ex_store\<lparr>media_messages := [ex_row,
               \<lparr>msg_id = 2, instance_id = Some ''i1'', recipient = ''912'', message = Some ''yo'',
                media = None, caption = None, schedule_time = None, message_status = ''sent'',
                whatsapp_message_id = None, created_at = 5000\<rparr>]\<rparr>, One 2)"
proof -
  have v: "''queued'' \<notin> set validMessageStatus" by (simp add: validMessageStatus_def)
  have "logMediaMessageToDB (\<lambda>t p i. t) ex_store 5000 ''i1'' [''912''] (Some ''yo'') None None None
        ''queued'' None
      = logMediaMessageToDB (\<lambda>t p i. t) ex_store 5000 ''i1'' [''912''] (Some ''yo'') None None None
        ''sent'' None"
    using C9_unknown_status_logged_as_sent[OF v] by blast
  also have "\<dots> = Inr (ex_store\<lparr>media_messages := [ex_row,
               \<lparr>msg_id = 2, instance_id = Some ''i1'', recipient = ''912'', message = Some ''yo'',
                media = None, caption = None, schedule_time = None, message_status = ''sent'',
                whatsapp_message_id = None, created_at = 5000\<rparr>]\<rparr>, One 2)"
    by (simp add: logMediaMessageToDB_def validMessageStatus_def replacePlaceholders_def
        truthy_def or_null_def formatScheduledAt_def next_id_def ex_defs Let_def)
  finally show ?thesis using v by (simp add: ex_store_def)
qed

lemma toLowerCase_statuses:
  "toLowerCase ''sent'' = ''sent''" "toLowerCase ''delivered'' = ''delivered''"
  "toLowerCase ''read'' = ''read''" "toLowerCase ''failed'' = ''failed''"
  "toLowerCase ''pending'' = ''pending''"
  by (simp_all add: toLowerCase_def lower_char_def)

text \<open>
  \<open>updateMessageStatusInDB\<close> of messages.js has no \<open>IS NULL\<close> guard of its own: called
  for a message row that already has its transport message id, it sets the timeline
  column to \<open>NOW()\<close> again. Every call of it is made where a send has just failed,
  before \<open>updateMessageWithWhatsAppId\<close> has given the row its transport message id;
  for such a row it leaves the timeline alone (section ``The delivery timeline is
  write-once'').
\<close>

lemma updateMessageStatusInDB_msgs_on_tracked_row:
  "delivered_time ex_report = Some 2000
   \<and> updateMessageStatusInDB_msgs ex_store_read 9000 1 ''delivered''
       = Inr (ex_store_read\<lparr>media_messages := [ex_row\<lparr>message_status := ''delivered''\<rparr>],
                report_time := [ex_report\<lparr>delivered_time := Some 9000\<rparr>]\<rparr>)
   \<and> updateMessageStatusInDB_msgs
         (ex_store_read\<lparr>media_messages := [ex_row\<lparr>message_status := ''delivered''\<rparr>],
                report_time := [ex_report\<lparr>delivered_time := Some 9000\<rparr>]\<rparr>) 12000 1 ''delivered''
       = Inr (ex_store_read\<lparr>media_messages := [ex_row\<lparr>message_status := ''delivered''\<rparr>],
                report_time := [ex_report\<lparr>delivered_time := Some 12000\<rparr>]\<rparr>)"
  by (simp add: updateMessageStatusInDB_msgs_def validMessageStatus_def rows_where_id_def
      set_status_where_id_def truthy_def status_field_def toLowerCase_statuses
      ex_row_def ex_store_read_def ex_report_def Let_def)

section \<open>Properties of the connection registry and supervisor\<close>

lemma getConnectionStatus_overrides_stored_status:
  "(instances0 i = None \<and> i \<notin> set Object_prototype_names \<longrightarrow>
      http_code (getConnectionStatus instances0 i) = 404
      \<and> resp_status (getConnectionStatus instances0 i) = ''not_found'')
   \<and> (instances0 i = None \<and> i \<in> set Object_prototype_names \<longrightarrow>
      http_code (getConnectionStatus instances0 i) = 200
      \<and> resp_connected (getConnectionStatus instances0 i) = JUndefined
      \<and> resp_status (getConnectionStatus instances0 i) = ''disconnected'')
   \<and> (instances0 i = Some e \<and> entry_sock e = Some s \<and> user s = Some u \<longrightarrow>
      resp_connected (getConnectionStatus instances0 i) = JUser u
      \<and> resp_status (getConnectionStatus instances0 i) = ''connected'')
   \<and> (instances0 i = Some e \<and> (entry_sock e = None \<or> (\<exists>s. entry_sock e = Some s \<and> user s = None)) \<longrightarrow>
      resp_connected (getConnectionStatus instances0 i) = JUndefined
      \<and> resp_status (getConnectionStatus instances0 i) =
          (if entry_status e = ''reconnecting'' then ''reconnecting'' else ''disconnected''))"
  by (auto simp: getConnectionStatus_def lookup_instance_def js_truthy_def Let_def
      split: option.splits)

text \<open>
  An id that names a member of \<open>Object.prototype\<close> is answered as a disconnected
  instance, not with 404.
\<close>

lemma getConnectionStatus_inherited_member:
  "getConnectionStatus ex_registry ''constructor'' =
     \<lparr>http_code = 200, resp_success = True, resp_connected = JUndefined,
      resp_status = ''disconnected'', resp_message = ''WhatsApp is not connected'',
      resp_lastUpdate = None\<rparr>"
  by (simp add: getConnectionStatus_def lookup_instance_def Object_prototype_names_def
      ex_registry_def)

text \<open>
  C10, evaluated on the code. Instance i1 has a socket with a user and the stored
  status reconnecting: the endpoint answers status connected, and its \<open>connected\<close>
  field is the user object itself, not the boolean \<open>true\<close>. Instance i2 has a socket
  without a user and the stored status connected: the endpoint answers status
  disconnected, and its \<open>connected\<close> field is \<open>undefined\<close>, not \<open>false\<close>. An
  unknown instance gets 404 with \<open>connected: false\<close>.
\<close>

theorem C10_connected_field_is_user_object:
  "getConnectionStatus ex_registry ''i1'' =
     \<lparr>http_code = 200, resp_success = True,
      resp_connected = JUser \<lparr>user_id = ''911@s.whatsapp.net''\<rparr>,
      resp_status = ''connected'', resp_message = ''WhatsApp is connected'',
      resp_lastUpdate = Some 1000\<rparr>
   \<and> resp_connected (getConnectionStatus ex_registry ''i1'') \<noteq> JBool True
   \<and> getConnectionStatus ex_registry ''i2'' =
     \<lparr>http_code = 200, resp_success = True, resp_connected = JUndefined,
      resp_status = ''disconnected'', resp_message = ''WhatsApp is not connected'',
      resp_lastUpdate = Some 2000\<rparr>
   \<and> getConnectionStatus ex_registry ''i3'' =
     \<lparr>http_code = 404, resp_success = False, resp_connected = JBool False,
      resp_status = ''not_found'', resp_message = ''Instance not found'',
      resp_lastUpdate = None\<rparr>"
  by (simp add: getConnectionStatus_def lookup_instance_def Object_prototype_names_def
      js_truthy_def ex_registry_def ex_sock_def Let_def)

lemma on_qr_keeps: "on_qr toDataURL now u (c, s) = (c1, s1) \<Longrightarrow>
   call_instanceId c1 = call_instanceId c \<and> call_sock c1 = call_sock c \<and> timers s1 = timers s"
  by (auto simp: on_qr_def split: option.splits if_splits)

lemma on_open_keeps: "on_open now u (c, s) = (c1, s1) \<Longrightarrow>
   call_instanceId c1 = call_instanceId c \<and> call_sock c1 = call_sock c \<and> timers s1 = timers s"
  by (auto simp: on_open_def split: option.splits if_splits)

lemma on_close_logout:
  assumes "connection u = Some ''close''" "statusCode_of u = Some loggedOut"
    "on_close loggedOut now u (c, s) = (c', s')"
  shows "(\<exists>e. instances s' (call_instanceId c) = Some e \<and> entry_status e = ''disconnected'')
     \<and> timers s' = timers s"
  using assms by (auto simp: on_close_def spread_status_def Let_def split: option.splits)

lemma on_close_other:
  assumes "connection u = Some ''close''" "statusCode_of u \<noteq> Some loggedOut"
    "on_close loggedOut now u (c, s) = (c', s')"
  shows "(\<exists>e. instances s' (call_instanceId c) = Some e \<and> entry_status e = ''reconnecting'')
     \<and> timers s' = timers s @ [\<lparr>delay_ms = 5000, timer_instanceId = call_instanceId c,
                                  timer_sock = call_sock c\<rparr>]"
  using assms by (auto simp: on_close_def spread_status_def Let_def split: option.splits)

lemma reconnect_callback_proceeds_iff:
  "(snd (reconnect_callback fresh t s0) \<noteq> None)
     = (\<exists>e sk. instances s0 (timer_instanceId t) = Some e \<and> entry_sock e = Some sk
               \<and> handle sk = handle (timer_sock t))"
  by (auto simp: reconnect_callback_def Let_def split: option.splits)

text \<open>
  C8. On a \<open>connection.update\<close> with \<open>connection = close\<close>: if the close reason is
  the logged-out code, the registry entry of the instance has status disconnected and
  no timer is added; for any other reason (also a missing one) the entry has status
  reconnecting and exactly one reconnect timer with a delay of 5000 ms is added for the
  socket that closed. When that timer fires, the reconnect starts a new
  \<open>initializeSock\<close> call exactly if the registry entry of the instance still holds a
  socket with the same handle.
\<close>

theorem C8_close_logout_or_reconnect:
  assumes "connection u = Some ''close''"
    and "on_connection_update toDataURL loggedOut now u (c, s) = (c', s')"
  shows "(loggedOut \<noteq> 0 \<and> disconnect_code u = Some loggedOut \<longrightarrow>
            (\<exists>e. instances s' (call_instanceId c) = Some e \<and> entry_status e = ''disconnected'')
            \<and> timers s' = timers s)
       \<and> (disconnect_code u \<noteq> Some loggedOut \<longrightarrow>
            (\<exists>e. instances s' (call_instanceId c) = Some e \<and> entry_status e = ''reconnecting'')
            \<and> timers s' = timers s @ [\<lparr>delay_ms = 5000, timer_instanceId = call_instanceId c,
                                         timer_sock = call_sock c\<rparr>])
       \<and> ((snd (reconnect_callback fresh t s0) \<noteq> None)
            = (\<exists>e sk. instances s0 (timer_instanceId t) = Some e \<and> entry_sock e = Some sk
                      \<and> handle sk = handle (timer_sock t)))"
proof -
  obtain c1 s1 where q: "on_qr toDataURL now u (c, s) = (c1, s1)" by (cases "on_qr toDataURL now u (c, s)")
  obtain c2 s2 where p: "on_open now u (c1, s1) = (c2, s2)" by (cases "on_open now u (c1, s1)")
  from assms(2) q p have cl: "on_close loggedOut now u (c2, s2) = (c', s')"
    by (simp add: on_connection_update_def)
  from on_qr_keeps[OF q] on_open_keeps[OF p]
  have k: "call_instanceId c2 = call_instanceId c" "call_sock c2 = call_sock c" "timers s2 = timers s"
    by simp_all
  have a: "loggedOut \<noteq> 0 \<and> disconnect_code u = Some loggedOut \<longrightarrow>
            (\<exists>e. instances s' (call_instanceId c) = Some e \<and> entry_status e = ''disconnected'')
            \<and> timers s' = timers s"
  proof
    assume "loggedOut \<noteq> 0 \<and> disconnect_code u = Some loggedOut"
    then have "statusCode_of u = Some loggedOut" by (simp add: statusCode_of_def)
    from on_close_logout[OF assms(1) this cl] k show
      "(\<exists>e. instances s' (call_instanceId c) = Some e \<and> entry_status e = ''disconnected'')
            \<and> timers s' = timers s" by simp
  qed
  have b: "disconnect_code u \<noteq> Some loggedOut \<longrightarrow>
            (\<exists>e. instances s' (call_instanceId c) = Some e \<and> entry_status e = ''reconnecting'')
            \<and> timers s' = timers s @ [\<lparr>delay_ms = 5000, timer_instanceId = call_instanceId c,
                                         timer_sock = call_sock c\<rparr>]"
  proof
    assume "disconnect_code u \<noteq> Some loggedOut"
    then have "statusCode_of u \<noteq> Some loggedOut"
      by (auto simp: statusCode_of_def split: option.splits if_splits)
    from on_close_other[OF assms(1) this cl] k show
      "(\<exists>e. instances s' (call_instanceId c) = Some e \<and> entry_status e = ''reconnecting'')
            \<and> timers s' = timers s @ [\<lparr>delay_ms = 5000, timer_instanceId = call_instanceId c,
                                         timer_sock = call_sock c\<rparr>]" by simp
  qed
  from a b reconnect_callback_proceeds_iff[of fresh t s0] show ?thesis by blast
qed

theorem C8_close_logout_or_reconnect_witness:
  "connection (ex_close (Some 401)) = Some ''close''
   \<and> (\<exists>e. instances (snd (on_connection_update Some 401 5000 (ex_close (Some 401))
                             (ex_call, ex_supervisor))) ''i1'' = Some e
           \<and> entry_status e = ''disconnected'')
   \<and> timers (snd (on_connection_update Some 401 5000 (ex_close (Some 401))
                    (ex_call, ex_supervisor))) = []
   \<and> (\<exists>e. instances (snd (on_connection_update Some 401 5000 (ex_close (Some 428))
                             (ex_call, ex_supervisor))) ''i1'' = Some e
           \<and> entry_status e = ''reconnecting'')
   \<and> timers (snd (on_connection_update Some 401 5000 (ex_close (Some 428))
                    (ex_call, ex_supervisor)))
       = [\<lparr>delay_ms = 5000, timer_instanceId = ''i1'', timer_sock = ex_sock\<rparr>]
   \<and> snd (reconnect_callback 9 \<lparr>delay_ms = 5000, timer_instanceId = ''i1'', timer_sock = ex_sock\<rparr>
            ex_supervisor) \<noteq> None"
proof -
  have cl: "connection (ex_close c) = Some ''close''" for c by (simp add: ex_close_def)
  have a: "(\<exists>e. instances (snd (on_connection_update Some 401 5000 (ex_close (Some 401))
                             (ex_call, ex_supervisor))) ''i1'' = Some e
           \<and> entry_status e = ''disconnected'')
     \<and> timers (snd (on_connection_update Some 401 5000 (ex_close (Some 401))
                    (ex_call, ex_supervisor))) = []"
    using C8_close_logout_or_reconnect[where toDataURL = Some and loggedOut = 401 and now = 5000
        and u = "ex_close (Some 401)" and c = ex_call and s = ex_supervisor,
        OF cl prod.collapse[symmetric]]
    by (simp add: ex_close_def ex_call_def ex_supervisor_def)
  have b: "(\<exists>e. instances (snd (on_connection_update Some 401 5000 (ex_close (Some 428))
                             (ex_call, ex_supervisor))) ''i1'' = Some e
           \<and> entry_status e = ''reconnecting'')
     \<and> timers (snd (on_connection_update Some 401 5000 (ex_close (Some 428))
                    (ex_call, ex_supervisor)))
       = [\<lparr>delay_ms = 5000, timer_instanceId = ''i1'', timer_sock = ex_sock\<rparr>]"
    using C8_close_logout_or_reconnect[where toDataURL = Some and loggedOut = 401 and now = 5000
        and u = "ex_close (Some 428)" and c = ex_call and s = ex_supervisor,
        OF cl prod.collapse[symmetric]]
    by (simp add: ex_close_def ex_call_def ex_supervisor_def)
  have c: "snd (reconnect_callback 9 \<lparr>delay_ms = 5000, timer_instanceId = ''i1'', timer_sock = ex_sock\<rparr>
            ex_supervisor) \<noteq> None"
    using C8_close_logout_or_reconnect[where toDataURL = Some and loggedOut = 401 and now = 5000
        and u = "ex_close (Some 401)" and c = ex_call and s = ex_supervisor and fresh = 9
        and t = "\<lparr>delay_ms = 5000, timer_instanceId = ''i1'', timer_sock = ex_sock\<rparr>"
        and ?s0.0 = ex_supervisor,
        OF cl prod.collapse[symmetric]]
    by (simp add: ex_supervisor_def ex_registry_def)
  from cl a b c show ?thesis by blast
qed

section \<open>Properties of the send pipeline\<close>

text \<open>
  C5, evaluated on the code. A batch of one message that has neither text nor media,
  on an authenticated socket: nothing is sent (no transport call), the ledger row stays
  pending with no transport message id, and the function returns 1.
\<close>

theorem C5_unsent_message_is_counted:
  "sendMessagesOneAtATime ex_env [Some ex_empty_message] None (Some ex_sock) ''i1'' None None
       ex_world
     = Inr (\<lparr>w_store = \<lparr>media_messages =
                 [\<lparr>msg_id = 1, instance_id = Some ''i1'', recipient = ''911'', message = None,
                   media = None, caption = None, schedule_time = None,
                   message_status = ''pending'', whatsapp_message_id = None,
                   created_at = 1000\<rparr>],
                report_time = [], subscription = [], reachable = True\<rparr>,
             w_now = 3000, w_sends = 0, w_trace = [Sleep 2000]\<rparr>, 1)"
  by (simp add: sendMessagesOneAtATime_def sock_ready_def ex_sock_def ex_env_def ex_world_def
      ex_empty_message_def sendOneMessage_def send_media_block_def send_text_block_def
      finish_message_def logMediaMessageToDB_def validMessageStatus_def
      replacePlaceholders_def truthy_def or_null_def formatScheduledAt_def next_id_def
      updateMessageWithWhatsAppId_def sleep_def getRandomDelay_def Let_def)
declare sendWithRetry.simps [simp del]

lemma sendWithRetry_shape:
  "retryCount \<le> MAX_RETRIES \<Longrightarrow> sendWithRetry tr w jid c retryCount = (w', res) \<Longrightarrow>
   \<exists>n. 1 \<le> n \<and> n + retryCount \<le> MAX_RETRIES + 1
     \<and> w_sends w' = w_sends w + n
     \<and> w_trace w' = w_trace w @ concat (replicate (n - 1) [Attempt jid c, Sleep RETRY_DELAY])
                        @ [Attempt jid c]
     \<and> w_store w' = w_store w
     \<and> w_now w' = w_now w + RETRY_DELAY * (n - 1)
     \<and> (\<forall>j < n - 1. tr (w_sends w + j) = SendErr ''Timed Out'')
     \<and> (case res of
           Inr r \<Rightarrow> tr (w_sends w + n - 1) = SendOk r
         | Inl e \<Rightarrow> tr (w_sends w + n - 1) = SendErr e
                     \<and> (e = ''Timed Out'' \<longrightarrow> n + retryCount = MAX_RETRIES + 1))"
proof (induction tr w jid c retryCount arbitrary: w' res rule: sendWithRetry.induct)
  case (1 tr w jid c retryCount)
  let ?w1 = "w\<lparr>w_sends := Suc (w_sends w), w_trace := w_trace w @ [Attempt jid c]\<rparr>"
  show ?case
  proof (cases "tr (w_sends w)")
    case (SendOk r)
    with "1.prems" have "w' = ?w1" "res = Inr r"
      by (simp_all add: sendWithRetry.simps)
    with SendOk "1.prems"(1) show ?thesis
      by (intro exI[of _ 1]) simp
  next
    case (SendErr msg)
    show ?thesis
    proof (cases "retryCount < MAX_RETRIES \<and> msg = ''Timed Out''")
      case False
      with SendErr "1.prems" have "w' = ?w1" "res = Inl msg"
        by (auto simp: sendWithRetry.simps)
      with SendErr False "1.prems"(1) show ?thesis
        by (intro exI[of _ 1]) auto
    next
      case True
      with SendErr "1.prems" have rec:
        "sendWithRetry tr (sleep RETRY_DELAY ?w1) jid c (Suc retryCount) = (w', res)"
        by (simp add: sendWithRetry.simps)
      from True have le: "Suc retryCount \<le> MAX_RETRIES" by simp
      from "1.IH"[OF SendErr True le rec] obtain n where n:
        "1 \<le> n" "n + Suc retryCount \<le> MAX_RETRIES + 1"
        "w_sends w' = w_sends (sleep RETRY_DELAY ?w1) + n"
        "w_trace w' = w_trace (sleep RETRY_DELAY ?w1)
            @ concat (replicate (n - 1) [Attempt jid c, Sleep RETRY_DELAY]) @ [Attempt jid c]"
        "w_store w' = w_store (sleep RETRY_DELAY ?w1)"
        "w_now w' = w_now (sleep RETRY_DELAY ?w1) + RETRY_DELAY * (n - 1)"
        "\<forall>j < n - 1. tr (w_sends (sleep RETRY_DELAY ?w1) + j) = SendErr ''Timed Out''"
        "case res of
           Inr r \<Rightarrow> tr (w_sends (sleep RETRY_DELAY ?w1) + n - 1) = SendOk r
         | Inl e \<Rightarrow> tr (w_sends (sleep RETRY_DELAY ?w1) + n - 1) = SendErr e
                     \<and> (e = ''Timed Out'' \<longrightarrow> n + Suc retryCount = MAX_RETRIES + 1)"
        by blast
      have a: "\<forall>j < Suc n - 1. tr (w_sends w + j) = SendErr ''Timed Out''"
      proof (intro allI impI)
        fix j assume j: "j < Suc n - 1"
        show "tr (w_sends w + j) = SendErr ''Timed Out''"
        proof (cases j)
          case 0
          with SendErr True show ?thesis by simp
        next
          case (Suc k)
          with j have "k < n - 1" by simp
          with n(7) have "tr (w_sends (sleep RETRY_DELAY ?w1) + k) = SendErr ''Timed Out''" by blast
          with Suc show ?thesis by (simp add: sleep_def)
        qed
      qed
      have b: "case res of
           Inr r \<Rightarrow> tr (w_sends w + Suc n - 1) = SendOk r
         | Inl e \<Rightarrow> tr (w_sends w + Suc n - 1) = SendErr e
                     \<and> (e = ''Timed Out'' \<longrightarrow> Suc n + retryCount = MAX_RETRIES + 1)"
        using n(1,8) by (cases res) (simp_all add: sleep_def)
      have t: "w_trace w' = w_trace w
          @ concat (replicate (Suc n - 1) [Attempt jid c, Sleep RETRY_DELAY]) @ [Attempt jid c]"
        using n(1,4) by (cases n) (simp_all add: sleep_def)
      have nw: "w_now w' = w_now w + RETRY_DELAY * (Suc n - 1)"
        using n(1,6) by (cases n) (simp_all add: sleep_def)
      from n(1,2,3,5) a b t nw show ?thesis
        by (intro exI[of _ "Suc n"]) (simp add: sleep_def)
    qed
  qed
qed
lemma migrate_keeps:
  "media_messages (migrateMessageToReportTime st now inst rcpt wid status createdAt) = media_messages st
   \<and> reachable (migrateMessageToReportTime st now inst rcpt wid status createdAt) = reachable st
   \<and> subscription (migrateMessageToReportTime st now inst rcpt wid status createdAt) = subscription st"
  by (simp add: migrateMessageToReportTime_def Let_def split: option.splits)

lemma set_status_where_id_none:
  "rows_where_id i rows = [] \<Longrightarrow> set_status_where_id i s rows = rows"
  by (induction rows) (auto simp: rows_where_id_def set_status_where_id_def split: if_splits)

lemma updateMessageStatusInDB_msgs_failed:
  assumes "reachable st"
  shows "\<exists>st'. updateMessageStatusInDB_msgs st now i ''failed'' = Inr st'
     \<and> media_messages st' = set_status_where_id (Some i) ''failed'' (media_messages st)
     \<and> reachable st' \<and> subscription st' = subscription st"
proof (cases "rows_where_id (Some i) (media_messages st)")
  case Nil
  with assms show ?thesis
    by (simp add: updateMessageStatusInDB_msgs_def validMessageStatus_def set_status_where_id_none)
next
  case (Cons m ms)
  with assms show ?thesis
    by (simp add: updateMessageStatusInDB_msgs_def validMessageStatus_def Let_def migrate_keeps
        split: option.splits)
qed

lemma mark_failed_rows:
  assumes "reachable (w_store w)"
  shows "media_messages (w_store (mark_failed w i))
           = set_status_where_id (Some i) ''failed'' (media_messages (w_store w))
     \<and> reachable (w_store (mark_failed w i)) \<and> w_sends (mark_failed w i) = w_sends w
     \<and> w_trace (mark_failed w i) = w_trace w \<and> w_now (mark_failed w i) = w_now w
     \<and> subscription (w_store (mark_failed w i)) = subscription (w_store w)"
  using updateMessageStatusInDB_msgs_failed[OF assms, of "w_now w" i]
  by (auto simp: mark_failed_def)

lemma updateMessageWithWhatsAppId_rows:
  assumes "reachable st" "i \<noteq> 0" "wid \<noteq> []"
  shows "media_messages (fst (updateMessageWithWhatsAppId st now i (Some wid)))
           = map (\<lambda>r. if msg_id r = i
                       then r\<lparr>whatsapp_message_id := Some wid, message_status := ''sent''\<rparr>
                       else r) (media_messages st)
     \<and> reachable (fst (updateMessageWithWhatsAppId st now i (Some wid)))
     \<and> subscription (fst (updateMessageWithWhatsAppId st now i (Some wid))) = subscription st"
proof (cases "rows_where_id (Some i) (media_messages st)")
  case Nil
  then have "\<forall>r \<in> set (media_messages st). msg_id r \<noteq> i"
    by (auto simp: rows_where_id_def filter_empty_conv)
  then have "map (\<lambda>r. if msg_id r = i
                       then r\<lparr>whatsapp_message_id := Some wid, message_status := ''sent''\<rparr>
                       else r) (media_messages st) = media_messages st"
    by (induction "media_messages st") (auto simp: map_idI)
  with Nil assms show ?thesis
    by (simp add: updateMessageWithWhatsAppId_def truthy_def)
next
  case (Cons m ms)
  with assms show ?thesis
    by (simp add: updateMessageWithWhatsAppId_def truthy_def Let_def migrate_keeps)
qed

lemma updateMessageWithWhatsAppId_missing:
  "\<not> truthy wid \<Longrightarrow> updateMessageWithWhatsAppId st now i wid = (st, None)"
  by (simp add: updateMessageWithWhatsAppId_def)

lemma try_send_cases:
  assumes re: "reachable (w_store w)" and t: "try_send tr w jid c i = (w', r)"
  shows "w_sends w < w_sends w' \<and> w_sends w' \<le> w_sends w + MAX_RETRIES + 1
     \<and> reachable (w_store w')
     \<and> subscription (w_store w') = subscription (w_store w)
     \<and> (case r of
           Some wid \<Rightarrow> tr (w_sends w' - 1) = SendOk (Some wid) \<and> w_store w' = w_store w
         | None \<Rightarrow> send_failed_at tr (w_sends w) (w_sends w' - 1)
                    \<and> media_messages (w_store w')
                        = set_status_where_id (Some i) ''failed'' (media_messages (w_store w)))"
proof -
  obtain w1 res where s: "sendWithRetry tr w jid c 0 = (w1, res)"
    by (cases "sendWithRetry tr w jid c 0")
  from sendWithRetry_shape[OF _ s] obtain n where n:
    "1 \<le> n" "n \<le> MAX_RETRIES + 1" "w_sends w1 = w_sends w + n" "w_store w1 = w_store w"
    "\<forall>j < n - 1. tr (w_sends w + j) = SendErr ''Timed Out''"
    "case res of
           Inr r \<Rightarrow> tr (w_sends w + n - 1) = SendOk r
         | Inl e \<Rightarrow> tr (w_sends w + n - 1) = SendErr e
                     \<and> (e = ''Timed Out'' \<longrightarrow> n + 0 = MAX_RETRIES + 1)"
    by auto
  from n(4) re have re1: "reachable (w_store w1)" by simp
  show ?thesis
  proof (cases res)
    case (Inr ro)
    show ?thesis
    proof (cases ro)
      case (Some wid)
      with Inr s t n re show ?thesis by (auto simp: try_send_def)
    next
      case None
      with Inr s t have w': "w' = mark_failed w1 i" "r = None" by (auto simp: try_send_def)
      from None Inr n have "send_failed_at tr (w_sends w) (w_sends w1 - 1)"
        by (simp add: send_failed_at_def)
      with w' mark_failed_rows[OF re1, of i] n show ?thesis by auto
    qed
  next
    case (Inl e)
    with s t have w': "w' = mark_failed w1 i" "r = None" by (auto simp: try_send_def)
    from Inl n have "send_failed_at tr (w_sends w) (w_sends w1 - 1)"
      by (auto simp: send_failed_at_def)
    with w' mark_failed_rows[OF re1, of i] n show ?thesis by auto
  qed
qed
lemma fold_max_bounds: "a \<le> fold max xs a \<and> (\<forall>x \<in> set xs. x \<le> fold max xs (a::nat))"
proof (induction xs arbitrary: a)
  case Nil
  show ?case by simp
next
  case (Cons y ys)
  from Cons[of "max y a"] show ?case by auto
qed

lemma next_id_fresh: "next_id rows \<noteq> 0 \<and> (\<forall>r \<in> set rows. msg_id r \<noteq> next_id rows)"
  using fold_max_bounds[of 0 "map msg_id rows"] by (fastforce simp: next_id_def)

lemma set_status_fresh:
  assumes "msg_id row = next_id rows"
  shows "set_status_where_id (Some (next_id rows)) s (rows @ [row]) = rows @ [row\<lparr>message_status := s\<rparr>]"
proof -
  have "map (\<lambda>r. if Some (msg_id r) = Some (next_id rows) then r\<lparr>message_status := s\<rparr> else r) rows = rows"
    using next_id_fresh[of rows] by (intro map_idI) auto
  with assms show ?thesis by (simp add: set_status_where_id_def)
qed

lemma set_sent_fresh:
  assumes "msg_id row = next_id rows"
  shows "map (\<lambda>r. if msg_id r = next_id rows
                   then r\<lparr>whatsapp_message_id := Some wid, message_status := ''sent''\<rparr>
                   else r) (rows @ [row])
         = rows @ [row\<lparr>whatsapp_message_id := Some wid, message_status := ''sent''\<rparr>]"
proof -
  have "map (\<lambda>r. if msg_id r = next_id rows
                   then r\<lparr>whatsapp_message_id := Some wid, message_status := ''sent''\<rparr>
                   else r) rows = rows"
    using next_id_fresh[of rows] by (intro map_idI) auto
  with assms show ?thesis by simp
qed

lemma or_null_None: "or_null None = None"
  by (simp add: or_null_def truthy_def)

lemma logMediaMessageToDB_single:
  assumes "reachable st"
  shows "\<exists>row. logMediaMessageToDB f st now inst [p] msg med cap sch ''pending'' None
            = Inr (st\<lparr>media_messages := media_messages st @ [row]\<rparr>, One (next_id (media_messages st)))
     \<and> msg_id row = next_id (media_messages st) \<and> message_status row = ''pending''
     \<and> whatsapp_message_id row = None \<and> recipient row = p"
proof -
  let ?row = "\<lparr>msg_id = next_id (media_messages st),
                instance_id = (if inst = [] then None else Some inst),
                recipient = p,
                message = or_null (replacePlaceholders f st msg p inst),
                media = or_null med,
                caption = or_null (if truthy cap then replacePlaceholders f st cap p inst else None),
                schedule_time = formatScheduledAt sch,
                message_status = ''pending'',
                whatsapp_message_id = None,
                created_at = now\<rparr>"
  have "logMediaMessageToDB f st now inst [p] msg med cap sch ''pending'' None
            = Inr (st\<lparr>media_messages := media_messages st @ [?row]\<rparr>, One (next_id (media_messages st)))"
    using assms by (simp add: logMediaMessageToDB_def validMessageStatus_def Let_def or_null_None)
  then show ?thesis by (intro exI[of _ ?row]) simp
qed

lemma send_media_block_cases:
  assumes re: "reachable (w_store wa)" and b: "send_media_block e mp pc wa jid i = (wb, rm)"
  shows "reachable (w_store wb) \<and> w_sends wa \<le> w_sends wb
     \<and> subscription (w_store wb) = subscription (w_store wa)
     \<and> (case rm of
           Inl u \<Rightarrow> w_sends wa < w_sends wb
                    \<and> send_failed_at (transport e) (w_sends wa) (w_sends wb - 1)
                    \<and> media_messages (w_store wb)
                        = set_status_where_id (Some i) ''failed'' (media_messages (w_store wa))
         | Inr None \<Rightarrow> wb = wa
         | Inr (Some wid) \<Rightarrow> w_sends wa < w_sends wb
                    \<and> (transport e) (w_sends wb - 1) = SendOk (Some wid)
                    \<and> w_store wb = w_store wa)"
proof (cases mp)
  case None
  with b re show ?thesis by (auto simp: send_media_block_def)
next
  case (Some p)
  let ?c = "MediaContent (case pc of None \<Rightarrow> p
                            | Some c \<Rightarrow> if c = [] then p else p\<lparr>payload_caption := c\<rparr>)"
  obtain w2 r where t: "try_send (transport e) wa jid ?c i = (w2, r)"
    by (cases "try_send (transport e) wa jid ?c i")
  from try_send_cases[OF re t] Some b t show ?thesis
    by (cases r) (auto simp: send_media_block_def)
qed

lemma send_text_block_cases:
  assumes re: "reachable (w_store wa)" and b: "send_text_block e pt wa jid i prev = (wb, rt)"
  shows "reachable (w_store wb) \<and> w_sends wa \<le> w_sends wb
     \<and> subscription (w_store wb) = subscription (w_store wa)
     \<and> (case rt of
           Inl u \<Rightarrow> w_sends wa < w_sends wb
                    \<and> send_failed_at (transport e) (w_sends wa) (w_sends wb - 1)
                    \<and> media_messages (w_store wb)
                        = set_status_where_id (Some i) ''failed'' (media_messages (w_store wa))
         | Inr x \<Rightarrow> w_store wb = w_store wa
                    \<and> ((wb = wa \<and> x = prev)
                        \<or> (w_sends wa < w_sends wb
                            \<and> (\<exists>wid. x = Some wid \<and> (transport e) (w_sends wb - 1) = SendOk (Some wid)))))"
proof (cases "\<exists>t. pt = Some t \<and> t \<noteq> []")
  case False
  with b re show ?thesis by (auto simp: send_text_block_def split: option.splits)
next
  case True
  then obtain t where pt: "pt = Some t" "t \<noteq> []" by blast
  obtain w2 r where t: "try_send (transport e) wa jid (TextContent t) i = (w2, r)"
    by (cases "try_send (transport e) wa jid (TextContent t) i")
  from try_send_cases[OF re t] pt b t show ?thesis
    by (cases r) (auto simp: send_text_block_def)
qed

lemma finish_message_rows:
  assumes "reachable (w_store w)" "i \<noteq> 0"
  shows "w_sends (finish_message e w i x) = w_sends w
     \<and> reachable (w_store (finish_message e w i x))
     \<and> subscription (w_store (finish_message e w i x)) = subscription (w_store w)
     \<and> media_messages (w_store (finish_message e w i x))
         = (case x of
              None \<Rightarrow> media_messages (w_store w)
            | Some wid \<Rightarrow>
                if wid = [] then media_messages (w_store w)
                else map (\<lambda>r. if msg_id r = i
                               then r\<lparr>whatsapp_message_id := Some wid, message_status := ''sent''\<rparr>
                               else r) (media_messages (w_store w)))"
proof (cases "truthy x")
  case False
  then show ?thesis using assms
    by (auto simp: finish_message_def Let_def sleep_def updateMessageWithWhatsAppId_missing truthy_def
        split: option.splits)
next
  case True
  then obtain wid where x: "x = Some wid" "wid \<noteq> []" by (auto simp: truthy_def split: option.splits)
  let ?w4 = "sleep (getRandomDelay (random500 e (w_sends w))) w"
  have re: "reachable (w_store ?w4)" using assms(1) by (simp add: sleep_def)
  obtain st5 r where u: "updateMessageWithWhatsAppId (w_store ?w4) (w_now ?w4) i (Some wid) = (st5, r)"
    by (cases "updateMessageWithWhatsAppId (w_store ?w4) (w_now ?w4) i (Some wid)")
  from updateMessageWithWhatsAppId_rows[OF re assms(2) x(2), of "w_now ?w4"] u
  have st5: "media_messages st5 = map (\<lambda>r. if msg_id r = i
                       then r\<lparr>whatsapp_message_id := Some wid, message_status := ''sent''\<rparr>
                       else r) (media_messages (w_store ?w4))"
    "reachable st5" "subscription st5 = subscription (w_store ?w4)" by simp_all
  have f: "finish_message e w i (Some wid) = ?w4\<lparr>w_store := st5\<rparr>"
    using u by (simp add: finish_message_def Let_def)
  show ?thesis unfolding x(1) using st5 x(2) by (simp add: f sleep_def)
qed
lemma sendOneMessage_outcome:
  assumes re: "reachable (w_store w)" and r: "sendOneMessage e mp inst fp sch w m = (w', ok)"
  shows "\<exists>row. msg_id row = next_id (media_messages (w_store w))
     \<and> message_status row = ''pending'' \<and> whatsapp_message_id row = None
     \<and> recipient row = out_number m
     \<and> reachable (w_store w') \<and> w_sends w \<le> w_sends w'
     \<and> subscription (w_store w') = subscription (w_store w)
     \<and> (\<not> ok \<longrightarrow> w_sends w < w_sends w'
            \<and> (\<exists>k. send_failed_at (transport e) k (w_sends w' - 1))
            \<and> media_messages (w_store w')
                = media_messages (w_store w) @ [row\<lparr>message_status := ''failed''\<rparr>])
     \<and> (ok \<and> w_sends w < w_sends w' \<longrightarrow>
            (\<exists>wid. transport e (w_sends w' - 1) = SendOk (Some wid)
               \<and> media_messages (w_store w')
                   = media_messages (w_store w)
                     @ [if wid = [] then row
                        else row\<lparr>whatsapp_message_id := Some wid, message_status := ''sent''\<rparr>]))
     \<and> (ok \<and> w_sends w' = w_sends w \<longrightarrow>
            media_messages (w_store w') = media_messages (w_store w) @ [row])"
proof -
  let ?rows = "media_messages (w_store w)"
  let ?i = "next_id ?rows"
  let ?jid = "out_number m @ ''@s.whatsapp.net''"
  let ?pt = "replacePlaceholders (placeholders e) (w_store w) (out_text m) (out_number m) inst"
  let ?pc = "replacePlaceholders (placeholders e) (w_store w) (out_caption m) (out_number m) inst"
  from logMediaMessageToDB_single[OF re, of "placeholders e" "w_now w" inst "out_number m"
      "or_null (out_text m)" "if mp \<noteq> None then fp else None" "or_null (out_caption m)" sch]
  obtain row where lg: "logMediaMessageToDB (placeholders e) (w_store w) (w_now w) inst [out_number m]
        (or_null (out_text m)) (if mp \<noteq> None then fp else None) (or_null (out_caption m)) sch
        ''pending'' None
      = Inr ((w_store w)\<lparr>media_messages := ?rows @ [row]\<rparr>, One ?i)"
    and row: "msg_id row = ?i" "message_status row = ''pending''" "whatsapp_message_id row = None"
      "recipient row = out_number m"
    by blast
  let ?w1 = "w\<lparr>w_store := (w_store w)\<lparr>media_messages := ?rows @ [row]\<rparr>\<rparr>"
  have re1: "reachable (w_store ?w1)" using re by simp
  have m1: "media_messages (w_store ?w1) = ?rows @ [row]" by simp
  have i0: "?i \<noteq> 0" using next_id_fresh[of ?rows] by simp
  obtain w2 rm where mb: "send_media_block e mp ?pc ?w1 ?jid ?i = (w2, rm)"
    by (cases "send_media_block e mp ?pc ?w1 ?jid ?i")
  note M = send_media_block_cases[OF re1 mb]
  from M have re2: "reachable (w_store w2)" by simp
  from M have sub2: "subscription (w_store w2) = subscription (w_store w)" by simp
  show ?thesis
  proof (cases rm)
    case (Inl u)
    with r lg mb have w': "w' = w2" "ok = False"
      by (simp_all add: sendOneMessage_def Let_def)
    from M Inl have "w_sends w < w_sends w2"
      "send_failed_at (transport e) (w_sends w) (w_sends w2 - 1)"
      "media_messages (w_store w2) = ?rows @ [row\<lparr>message_status := ''failed''\<rparr>]"
      by (simp_all add: set_status_fresh[OF row(1)])
    with w' row re2 sub2 show ?thesis by (intro exI[of _ row]) (simp, blast)
  next
    case (Inr mediaId)
    with M have st2: "w_store w2 = w_store ?w1" by (cases mediaId) auto
    obtain w3 rt where tb: "send_text_block e ?pt w2 ?jid ?i mediaId = (w3, rt)"
      by (cases "send_text_block e ?pt w2 ?jid ?i mediaId")
    note T = send_text_block_cases[OF re2 tb]
    from T have re3: "reachable (w_store w3)" by simp
    from T sub2 have sub3: "subscription (w_store w3) = subscription (w_store w)" by simp
    from M T have le3: "w_sends w \<le> w_sends w3" by simp
    show ?thesis
    proof (cases rt)
      case (Inl u)
      with r lg mb tb Inr have w': "w' = w3" "ok = False"
        by (simp_all add: sendOneMessage_def Let_def)
      from T Inl M st2 have "w_sends w < w_sends w3"
        "send_failed_at (transport e) (w_sends w2) (w_sends w3 - 1)"
        "media_messages (w_store w3) = ?rows @ [row\<lparr>message_status := ''failed''\<rparr>]"
        by (simp_all add: set_status_fresh[OF row(1)])
      with w' row re3 sub3 show ?thesis by (intro exI[of _ row]) (simp, blast)
    next
      case (Inr x)
      with r lg mb tb \<open>rm = Inr mediaId\<close> have w': "w' = finish_message e w3 ?i x" "ok = True"
        by (simp_all add: sendOneMessage_def Let_def)
      from T Inr st2 have st3: "media_messages (w_store w3) = ?rows @ [row]" by simp
      note F = finish_message_rows[OF re3 i0, of e x]
      have sent: "w_sends w < w_sends w3 \<longrightarrow>
          (\<exists>wid. x = Some wid \<and> transport e (w_sends w3 - 1) = SendOk (Some wid))"
      proof
        assume lt: "w_sends w < w_sends w3"
        from T Inr consider (nosend) "w3 = w2" "x = mediaId"
          | (bytext) wid where "w_sends w2 < w_sends w3" "x = Some wid"
              "transport e (w_sends w3 - 1) = SendOk (Some wid)"
          by auto
        then show "\<exists>wid. x = Some wid \<and> transport e (w_sends w3 - 1) = SendOk (Some wid)"
        proof cases
          case nosend
          with lt M \<open>rm = Inr mediaId\<close> show ?thesis by (cases mediaId) auto
        next
          case bytext
          then show ?thesis by blast
        qed
      qed
      have unsent: "w_sends w3 = w_sends w \<longrightarrow> x = None"
      proof
        assume eq: "w_sends w3 = w_sends w"
        with M T have "w_sends w2 = w_sends w" by simp
        with M \<open>rm = Inr mediaId\<close> have "mediaId = None" by (cases mediaId) auto
        moreover from T Inr eq \<open>w_sends w2 = w_sends w\<close> have "x = mediaId" by auto
        ultimately show "x = None" by simp
      qed
      from F w' have s': "w_sends w' = w_sends w3" "reachable (w_store w')"
        "subscription (w_store w') = subscription (w_store w3)" by simp_all
      have mm: "media_messages (w_store w') =
          (case x of None \<Rightarrow> ?rows @ [row]
           | Some wid \<Rightarrow> if wid = [] then ?rows @ [row]
               else ?rows @ [row\<lparr>whatsapp_message_id := Some wid, message_status := ''sent''\<rparr>])"
      proof (cases x)
        case None
        with F st3 w'(1) show ?thesis by simp
      next
        case (Some wid)
        show ?thesis
        proof (cases "wid = []")
          case True
          with Some F st3 w'(1) show ?thesis by simp
        next
          case False
          with Some F w'(1) have "media_messages (w_store w')
              = map (\<lambda>r. if msg_id r = ?i
                       then r\<lparr>whatsapp_message_id := Some wid, message_status := ''sent''\<rparr>
                       else r) (media_messages (w_store w3))" by simp
          also have "\<dots> = map (\<lambda>r. if msg_id r = ?i
                       then r\<lparr>whatsapp_message_id := Some wid, message_status := ''sent''\<rparr>
                       else r) (?rows @ [row])" by (simp only: st3)
          also have "\<dots> = ?rows @ [row\<lparr>whatsapp_message_id := Some wid, message_status := ''sent''\<rparr>]"
            by (rule set_sent_fresh[OF row(1)])
          finally show ?thesis using Some False by simp
        qed
      qed
      have a: "ok \<and> w_sends w < w_sends w' \<longrightarrow>
            (\<exists>wid. transport e (w_sends w' - 1) = SendOk (Some wid)
               \<and> media_messages (w_store w')
                   = ?rows @ [if wid = [] then row
                        else row\<lparr>whatsapp_message_id := Some wid, message_status := ''sent''\<rparr>])"
      proof
        assume "ok \<and> w_sends w < w_sends w'"
        with s' sent obtain wid where wid: "x = Some wid"
          "transport e (w_sends w3 - 1) = SendOk (Some wid)" by auto
        with mm s' show "\<exists>wid. transport e (w_sends w' - 1) = SendOk (Some wid)
               \<and> media_messages (w_store w')
                   = ?rows @ [if wid = [] then row
                        else row\<lparr>whatsapp_message_id := Some wid, message_status := ''sent''\<rparr>]"
          by (intro exI[of _ wid]) simp
      qed
      have b: "ok \<and> w_sends w' = w_sends w \<longrightarrow> media_messages (w_store w') = ?rows @ [row]"
        using unsent s' mm by simp
      have c: "\<not> ok \<longrightarrow> w_sends w < w_sends w'
            \<and> (\<exists>k. send_failed_at (transport e) k (w_sends w' - 1))
            \<and> media_messages (w_store w') = ?rows @ [row\<lparr>message_status := ''failed''\<rparr>]"
        using w'(2) by simp
      have d: "w_sends w \<le> w_sends w'" "subscription (w_store w') = subscription (w_store w)"
        using s' le3 sub3 by simp_all
      from row s'(2) d a b c show ?thesis by (intro exI[of _ row]) blast
    qed
  qed
qed
lemma sendOneMessage_adds_one_row:
  assumes "reachable (w_store w)" "sendOneMessage e mp inst fp sch w m = (w', ok)"
  shows "reachable (w_store w')
     \<and> length (media_messages (w_store w')) = Suc (length (media_messages (w_store w)))"
proof -
  from sendOneMessage_outcome[OF assms] obtain row where
    o: "reachable (w_store w')" "w_sends w \<le> w_sends w'"
    "\<not> ok \<longrightarrow> media_messages (w_store w')
        = media_messages (w_store w) @ [row\<lparr>message_status := ''failed''\<rparr>]"
    "ok \<and> w_sends w < w_sends w' \<longrightarrow>
       (\<exists>wid. media_messages (w_store w')
          = media_messages (w_store w)
            @ [if wid = [] then row
               else row\<lparr>whatsapp_message_id := Some wid, message_status := ''sent''\<rparr>])"
    "ok \<and> w_sends w' = w_sends w \<longrightarrow> media_messages (w_store w') = media_messages (w_store w) @ [row]"
    by blast
  have "length (media_messages (w_store w')) = Suc (length (media_messages (w_store w)))"
  proof (cases ok)
    case False
    with o(3) show ?thesis by simp
  next
    case True
    show ?thesis
    proof (cases "w_sends w < w_sends w'")
      case True
      with \<open>ok\<close> o(4) obtain wid where "media_messages (w_store w')
          = media_messages (w_store w)
            @ [if wid = [] then row
               else row\<lparr>whatsapp_message_id := Some wid, message_status := ''sent''\<rparr>]" by blast
      then show ?thesis by simp
    next
      case False
      with o(2) have "w_sends w' = w_sends w" by simp
      with \<open>ok\<close> o(5) show ?thesis by simp
    qed
  qed
  with o(1) show ?thesis by simp
qed

text \<open>
  An error while one message is processed does not end the batch, as long as every
  element of the batch is an object: on a reachable store the loop then returns, has
  given every message of the batch its ledger row, whatever the transport does, and
  has counted at most one per message.
\<close>

lemma send_loop_processes_every_message:
  "reachable (w_store w) \<Longrightarrow> None \<notin> set ms \<Longrightarrow>
   \<exists>w' n'. send_loop e mp inst fp sch w n ms = Inr (w', n')
     \<and> reachable (w_store w')
     \<and> length (media_messages (w_store w')) = length (media_messages (w_store w)) + length ms
     \<and> n \<le> n' \<and> n' \<le> n + length ms"
proof (induction ms arbitrary: w n)
  case Nil
  then show ?case by simp
next
  case (Cons x ms)
  from Cons.prems(2) obtain m where x: "x = Some m" by (cases x) auto
  obtain w1 ok where s: "sendOneMessage e mp inst fp sch w m = (w1, ok)"
    by (cases "sendOneMessage e mp inst fp sch w m")
  from sendOneMessage_adds_one_row[OF Cons.prems(1) s]
  have re1: "reachable (w_store w1)"
    and l1: "length (media_messages (w_store w1)) = Suc (length (media_messages (w_store w)))"
    by simp_all
  from Cons.prems(2) have "None \<notin> set ms" by simp
  from Cons.IH[OF re1 this, of "if ok then Suc n else n"]
  obtain w' n' where r: "send_loop e mp inst fp sch w1 (if ok then Suc n else n) ms = Inr (w', n')"
    and re: "reachable (w_store w')"
    and l: "length (media_messages (w_store w')) = length (media_messages (w_store w1)) + length ms"
    and n1: "(if ok then Suc n else n) \<le> n'" and n2: "n' \<le> (if ok then Suc n else n) + length ms"
    by blast
  from x s r have "send_loop e mp inst fp sch w n (x # ms) = Inr (w', n')" by simp
  moreover from l l1
  have "length (media_messages (w_store w')) = length (media_messages (w_store w)) + length (x # ms)"
    by simp
  moreover from n1 have "n \<le> n'" by (simp split: if_splits)
  moreover from n2 have "n' \<le> n + length (x # ms)" by (simp split: if_splits)
  ultimately show ?case using re by blast
qed

text \<open>
  A \<open>null\<close> element does end the batch: the messages before it are processed, the
  call rejects at the element, and no message after it gets a ledger row.
\<close>

lemma send_loop_null_element_rejects:
  "reachable (w_store w) \<Longrightarrow>
   \<exists>w'. send_loop e mp inst fp sch w n (map Some pre @ None # post)
          = Inl (TypeError_null ''number'', w')
     \<and> length (media_messages (w_store w')) = length (media_messages (w_store w)) + length pre"
proof (induction pre arbitrary: w n)
  case Nil
  then show ?case by simp
next
  case (Cons m pre)
  obtain w1 ok where s: "sendOneMessage e mp inst fp sch w m = (w1, ok)"
    by (cases "sendOneMessage e mp inst fp sch w m")
  from sendOneMessage_adds_one_row[OF Cons.prems s]
  have re1: "reachable (w_store w1)"
    and l1: "length (media_messages (w_store w1)) = Suc (length (media_messages (w_store w)))"
    by simp_all
  from Cons.IH[OF re1, of "if ok then Suc n else n"]
  obtain w' where r: "send_loop e mp inst fp sch w1 (if ok then Suc n else n)
                        (map Some pre @ None # post) = Inl (TypeError_null ''number'', w')"
    and l: "length (media_messages (w_store w')) = length (media_messages (w_store w1)) + length pre"
    by blast
  from s r have "send_loop e mp inst fp sch w n (map Some (m # pre) @ None # post)
                   = Inl (TypeError_null ''number'', w')" by simp
  moreover from l l1
  have "length (media_messages (w_store w')) = length (media_messages (w_store w)) + length (m # pre)"
    by simp
  ultimately show ?case by blast
qed

text \<open>
  C6. A send attempt (\<open>sendWithRetry\<close> from retry count 0) makes between one and four
  transport calls (\<open>MAX_RETRIES = 3\<close> retries), every call but the last having failed
  with the timeout error, with exactly one sleep of \<open>RETRY_DELAY = 3000\<close> ms between
  consecutive calls; it ends with the first call that succeeds or fails with another
  error (no retry then), and it ends with the timeout error only at the fourth call.
  For one message of a batch on a reachable store: when a send fails, the message's
  ledger row is failed; when the sends succeed, the row is sent and holds the
  transport message id of the last send (if the transport returned a non-empty id).
\<close>

theorem C6_retry_and_final_status:
  "MAX_RETRIES = 3 \<and> RETRY_DELAY = 3000
   \<and> (sendWithRetry tr w0 jid c 0 = (w1, res) \<longrightarrow>
        (\<exists>n. 1 \<le> n \<and> n \<le> MAX_RETRIES + 1
           \<and> w_sends w1 = w_sends w0 + n
           \<and> w_trace w1 = w_trace w0
                @ concat (replicate (n - 1) [Attempt jid c, Sleep RETRY_DELAY]) @ [Attempt jid c]
           \<and> (\<forall>j < n - 1. tr (w_sends w0 + j) = SendErr ''Timed Out'')
           \<and> (case res of
                 Inr r \<Rightarrow> tr (w_sends w0 + n - 1) = SendOk r
               | Inl e \<Rightarrow> tr (w_sends w0 + n - 1) = SendErr e
                           \<and> (e = ''Timed Out'' \<longrightarrow> n = MAX_RETRIES + 1))))
   \<and> (reachable (w_store w) \<and> sendOneMessage e mp inst fp sch w m = (w', ok) \<longrightarrow>
        (\<exists>row. msg_id row = next_id (media_messages (w_store w))
           \<and> message_status row = ''pending'' \<and> whatsapp_message_id row = None
           \<and> recipient row = out_number m
           \<and> (\<not> ok \<longrightarrow> w_sends w < w_sends w'
                  \<and> (\<exists>k. send_failed_at (transport e) k (w_sends w' - 1))
                  \<and> media_messages (w_store w')
                      = media_messages (w_store w) @ [row\<lparr>message_status := ''failed''\<rparr>])
           \<and> (ok \<and> w_sends w < w_sends w' \<longrightarrow>
                  (\<exists>wid. transport e (w_sends w' - 1) = SendOk (Some wid)
                     \<and> media_messages (w_store w')
                         = media_messages (w_store w)
                           @ [if wid = [] then row
                              else row\<lparr>whatsapp_message_id := Some wid,
                                       message_status := ''sent''\<rparr>]))))"
proof -
  have a: "sendWithRetry tr w0 jid c 0 = (w1, res) \<longrightarrow>
        (\<exists>n. 1 \<le> n \<and> n \<le> MAX_RETRIES + 1
           \<and> w_sends w1 = w_sends w0 + n
           \<and> w_trace w1 = w_trace w0
                @ concat (replicate (n - 1) [Attempt jid c, Sleep RETRY_DELAY]) @ [Attempt jid c]
           \<and> (\<forall>j < n - 1. tr (w_sends w0 + j) = SendErr ''Timed Out'')
           \<and> (case res of
                 Inr r \<Rightarrow> tr (w_sends w0 + n - 1) = SendOk r
               | Inl e \<Rightarrow> tr (w_sends w0 + n - 1) = SendErr e
                           \<and> (e = ''Timed Out'' \<longrightarrow> n = MAX_RETRIES + 1)))"
  proof
    assume s: "sendWithRetry tr w0 jid c 0 = (w1, res)"
    from sendWithRetry_shape[OF _ s] obtain n where n: "1 \<le> n" "n + 0 \<le> MAX_RETRIES + 1"
      "w_sends w1 = w_sends w0 + n"
      "w_trace w1 = w_trace w0
                @ concat (replicate (n - 1) [Attempt jid c, Sleep RETRY_DELAY]) @ [Attempt jid c]"
      "\<forall>j < n - 1. tr (w_sends w0 + j) = SendErr ''Timed Out''"
      "case res of
                 Inr r \<Rightarrow> tr (w_sends w0 + n - 1) = SendOk r
               | Inl e \<Rightarrow> tr (w_sends w0 + n - 1) = SendErr e
                           \<and> (e = ''Timed Out'' \<longrightarrow> n + 0 = MAX_RETRIES + 1)"
      by auto
    then show "\<exists>n. 1 \<le> n \<and> n \<le> MAX_RETRIES + 1
           \<and> w_sends w1 = w_sends w0 + n
           \<and> w_trace w1 = w_trace w0
                @ concat (replicate (n - 1) [Attempt jid c, Sleep RETRY_DELAY]) @ [Attempt jid c]
           \<and> (\<forall>j < n - 1. tr (w_sends w0 + j) = SendErr ''Timed Out'')
           \<and> (case res of
                 Inr r \<Rightarrow> tr (w_sends w0 + n - 1) = SendOk r
               | Inl e \<Rightarrow> tr (w_sends w0 + n - 1) = SendErr e
                           \<and> (e = ''Timed Out'' \<longrightarrow> n = MAX_RETRIES + 1))"
      by (intro exI[of _ n], cases res) simp_all
  qed
  have b: "reachable (w_store w) \<and> sendOneMessage e mp inst fp sch w m = (w', ok) \<longrightarrow>
        (\<exists>row. msg_id row = next_id (media_messages (w_store w))
           \<and> message_status row = ''pending'' \<and> whatsapp_message_id row = None
           \<and> recipient row = out_number m
           \<and> (\<not> ok \<longrightarrow> w_sends w < w_sends w'
                  \<and> (\<exists>k. send_failed_at (transport e) k (w_sends w' - 1))
                  \<and> media_messages (w_store w')
                      = media_messages (w_store w) @ [row\<lparr>message_status := ''failed''\<rparr>])
           \<and> (ok \<and> w_sends w < w_sends w' \<longrightarrow>
                  (\<exists>wid. transport e (w_sends w' - 1) = SendOk (Some wid)
                     \<and> media_messages (w_store w')
                         = media_messages (w_store w)
                           @ [if wid = [] then row
                              else row\<lparr>whatsapp_message_id := Some wid,
                                       message_status := ''sent''\<rparr>])))"
  proof (intro impI, elim conjE)
    assume re: "reachable (w_store w)" and r: "sendOneMessage e mp inst fp sch w m = (w', ok)"
    from sendOneMessage_outcome[OF re r] obtain row where
      "msg_id row = next_id (media_messages (w_store w))"
      "message_status row = ''pending''" "whatsapp_message_id row = None"
      "recipient row = out_number m"
      "\<not> ok \<longrightarrow> w_sends w < w_sends w'
                  \<and> (\<exists>k. send_failed_at (transport e) k (w_sends w' - 1))
                  \<and> media_messages (w_store w')
                      = media_messages (w_store w) @ [row\<lparr>message_status := ''failed''\<rparr>]"
      "ok \<and> w_sends w < w_sends w' \<longrightarrow>
                  (\<exists>wid. transport e (w_sends w' - 1) = SendOk (Some wid)
                     \<and> media_messages (w_store w')
                         = media_messages (w_store w)
                           @ [if wid = [] then row
                              else row\<lparr>whatsapp_message_id := Some wid,
                                       message_status := ''sent''\<rparr>])"
      by blast
    then show "\<exists>row. msg_id row = next_id (media_messages (w_store w))
           \<and> message_status row = ''pending'' \<and> whatsapp_message_id row = None
           \<and> recipient row = out_number m
           \<and> (\<not> ok \<longrightarrow> w_sends w < w_sends w'
                  \<and> (\<exists>k. send_failed_at (transport e) k (w_sends w' - 1))
                  \<and> media_messages (w_store w')
                      = media_messages (w_store w) @ [row\<lparr>message_status := ''failed''\<rparr>])
           \<and> (ok \<and> w_sends w < w_sends w' \<longrightarrow>
                  (\<exists>wid. transport e (w_sends w' - 1) = SendOk (Some wid)
                     \<and> media_messages (w_store w')
                         = media_messages (w_store w)
                           @ [if wid = [] then row
                              else row\<lparr>whatsapp_message_id := Some wid,
                                       message_status := ''sent''\<rparr>]))"
      by (intro exI[of _ row]) blast
  qed
  from a b show ?thesis by (simp add: MAX_RETRIES_def RETRY_DELAY_def)
qed

lemma ex_retry_run:
  "sendOneMessage ex_env_retry None ''i1'' None None ex_world ex_hello
     = (\<lparr>w_store = \<lparr>media_messages =
                 [\<lparr>msg_id = 1, instance_id = Some ''i1'', recipient = ''912'',
                   message = Some ''hello'', media = None, caption = None, schedule_time = None,
                   message_status = ''sent'', whatsapp_message_id = Some ''WID'',
                   created_at = 1000\<rparr>],
                report_time =
                 [\<lparr>rt_instance_id = ''i1'', rt_recipient = ''912'', rt_whatsapp_message_id = ''WID'',
                   initiated_time = Some 1000, sent_time = Some 1000, delivered_time = None,
                   read_time = None, failed_time = None, rt_created_at = 1000\<rparr>],
                subscription = [], reachable = True\<rparr>,
         w_now = 9000, w_sends = 3,
         w_trace = [Attempt ''912@s.whatsapp.net'' (TextContent ''hello''), Sleep 3000,
                    Attempt ''912@s.whatsapp.net'' (TextContent ''hello''), Sleep 3000,
                    Attempt ''912@s.whatsapp.net'' (TextContent ''hello''), Sleep 2000]\<rparr>, True)"
  by (simp add: ex_env_retry_def ex_world_def ex_hello_def sendOneMessage_def
      send_media_block_def send_text_block_def finish_message_def try_send_def
      sendWithRetry.simps MAX_RETRIES_def RETRY_DELAY_def
      logMediaMessageToDB_def validMessageStatus_def
      replacePlaceholders_def truthy_def or_null_def formatScheduledAt_def next_id_def
      updateMessageWithWhatsAppId_def rows_where_id_def migrateMessageToReportTime_def
      migrate_field_def status_field_def toLowerCase_statuses split_comma_def trim_def is_space_def
      upsert_report_def sleep_def getRandomDelay_def Let_def)
theorem C6_retry_and_final_status_witness:
  "reachable (w_store ex_world)
   \<and> snd (sendOneMessage ex_env_retry None ''i1'' None None ex_world ex_hello)
   \<and> w_sends (fst (sendOneMessage ex_env_retry None ''i1'' None None ex_world ex_hello)) = 3
   \<and> (\<exists>row. msg_id row = 1 \<and> message_status row = ''pending'' \<and> whatsapp_message_id row = None
          \<and> recipient row = ''912''
          \<and> media_messages (w_store (fst (sendOneMessage ex_env_retry None ''i1'' None None
                                             ex_world ex_hello)))
              = [row\<lparr>whatsapp_message_id := Some ''WID'', message_status := ''sent''\<rparr>])"
proof -
  let ?r = "sendOneMessage ex_env_retry None ''i1'' None None ex_world ex_hello"
  have re: "reachable (w_store ex_world)" by (simp add: ex_world_def)
  have ok: "snd ?r" and n: "w_sends (fst ?r) = 3" by (simp_all add: ex_retry_run)
  have t: "transport ex_env_retry 2 = SendOk (Some ''WID'')" by (simp add: ex_env_retry_def)
  have w: "w_sends ex_world = 0" "media_messages (w_store ex_world) = []"
    "out_number ex_hello = ''912''"
    by (simp_all add: ex_world_def ex_hello_def)
  have "reachable (w_store ex_world) \<and> ?r = (fst ?r, snd ?r)" using re by simp
  with C6_retry_and_final_status[where w = ex_world and e = ex_env_retry and mp = None
      and inst = "''i1''" and fp = None and sch = None and m = ex_hello
      and w' = "fst ?r" and ok = "snd ?r" and tr = "transport ex_env_retry" and ?w0.0 = ex_world
      and jid = "''912''" and c = "TextContent ''hello''" and ?w1.0 = ex_world
      and res = "Inl ''none''"]
  obtain row where row: "msg_id row = next_id (media_messages (w_store ex_world))"
    "message_status row = ''pending''" "whatsapp_message_id row = None"
    "recipient row = out_number ex_hello"
    "snd ?r \<and> w_sends ex_world < w_sends (fst ?r) \<longrightarrow>
       (\<exists>wid. transport ex_env_retry (w_sends (fst ?r) - 1) = SendOk (Some wid)
          \<and> media_messages (w_store (fst ?r))
              = media_messages (w_store ex_world)
                @ [if wid = [] then row
                   else row\<lparr>whatsapp_message_id := Some wid, message_status := ''sent''\<rparr>])"
    by blast
  from row(5) ok n w(1) obtain wid where wid:
    "transport ex_env_retry (3 - 1) = SendOk (Some wid)"
    "media_messages (w_store (fst ?r))
              = media_messages (w_store ex_world)
                @ [if wid = [] then row
                   else row\<lparr>whatsapp_message_id := Some wid, message_status := ''sent''\<rparr>]"
    by auto
  from wid(1) t have "wid = ''WID''" by simp
  with wid(2) w(2) have "media_messages (w_store (fst ?r))
      = [row\<lparr>whatsapp_message_id := Some ''WID'', message_status := ''sent''\<rparr>]" by simp
  with row(1-4) w have "\<exists>row. msg_id row = 1 \<and> message_status row = ''pending'' \<and> whatsapp_message_id row = None
          \<and> recipient row = ''912''
          \<and> media_messages (w_store (fst ?r))
              = [row\<lparr>whatsapp_message_id := Some ''WID'', message_status := ''sent''\<rparr>]"
    by (intro exI[of _ row]) (simp add: next_id_def)
  with re ok n show ?thesis by blast
qed

section \<open>Properties of the quota gate\<close>

text \<open>
  C4. For a non-empty batch submitted to the send-media endpoint on a reachable store:
  if the remaining quota of the tenant's newest active subscription (messages
  purchased minus messages created within the subscription window) is at most zero,
  or the batch is larger than it, the endpoint answers 400 with the quota error
  and the world is unchanged: no ledger row is created and no transport call is made.
\<close>

theorem C4_quota_rejects_whole_batch:
  assumes "req_messages req \<noteq> []" and "reachable (w_store w)"
    and "active_subscription (w_store w) (req_instanceId req) (w_now w) = Some sub"
    and "messagesRemaining (w_store w) (req_instanceId req) sub (w_now w) = remaining"
    and "remaining \<le> 0 \<or> int (length (req_messages req)) > remaining"
  shows "sendMedia e files req w
           = (if remaining \<le> 0 then LimitReached else CanOnlySend remaining, w)
       \<and> http_status (fst (sendMedia e files req w)) = 400"
  using assms by (auto simp: sendMedia_def Let_def)

theorem C4_quota_rejects_whole_batch_witness:
  "req_messages ex_request \<noteq> [] \<and> reachable (w_store ex_world_quota)
   \<and> active_subscription (w_store ex_world_quota) ''i1'' 5000 = Some ex_subscription
   \<and> messagesRemaining (w_store ex_world_quota) ''i1'' ex_subscription 5000 = 1
   \<and> int (length (req_messages ex_request)) > 1
   \<and> sendMedia ex_env (\<lambda>p. None) ex_request ex_world_quota = (CanOnlySend 1, ex_world_quota)"
proof -
  have a: "req_messages ex_request \<noteq> []" "reachable (w_store ex_world_quota)"
    "req_instanceId ex_request = ''i1''" "w_now ex_world_quota = 5000"
    by (simp_all add: ex_request_def ex_world_quota_def)
  have b: "active_subscription (w_store ex_world_quota) ''i1'' 5000 = Some ex_subscription"
    by (simp add: active_subscription_def ex_world_quota_def ex_subscription_def curdate_def)
  have c: "messagesRemaining (w_store ex_world_quota) ''i1'' ex_subscription 5000 = 1"
    by (simp add: messagesRemaining_def messages_in_period_def ex_world_quota_def
        ex_subscription_def ex_row_def)
  have d: "(1::int) \<le> 0 \<or> int (length (req_messages ex_request)) > 1"
    by (simp add: ex_request_def)
  from C4_quota_rejects_whole_batch[of ex_request ex_world_quota ex_subscription 1 ex_env "\<lambda>p. None"]
    a b c d
  show ?thesis by simp
qed

section \<open>Properties of the scheduler\<close>

lemma due_rows_iff:
  "((t, m) \<in> set (due_rows now rows))
     = (m \<in> set rows \<and> schedule_time m = Some t \<and> message_status m = ''pending'' \<and> t \<le> now)"
  unfolding due_rows_def by (induction rows) (auto split: option.splits if_splits)

lemma sorted_take_nat: "sorted (xs::nat list) \<Longrightarrow> sorted (take n xs)"
proof -
  assume "sorted xs"
  then have "sorted (take n xs @ drop n xs)" by simp
  then show "sorted (take n xs)" by (simp only: sorted_append)
qed

lemma pending_page_sorted: "sorted (map fst (pending_page n st now))"
proof -
  have "sorted (map fst (sort_key fst (due_rows now (media_messages st))))"
    by (rule sorted_sort_key)
  then have "sorted (take n (map fst (sort_key fst (due_rows now (media_messages st)))))"
    by (rule sorted_take_nat)
  then show ?thesis by (simp add: pending_page_def take_map)
qed

lemma pending_page_subset:
  "(t, m) \<in> set (pending_page n st now) \<Longrightarrow> (t, m) \<in> set (due_rows now (media_messages st))"
  by (auto simp: pending_page_def dest: in_set_takeD)

lemma pending_page_length: "length (pending_page n st now) \<le> n"
  by (simp add: pending_page_def)

lemma sorted_take_earlier:
  assumes "sorted (map fst ps)" "(t2, m2) \<in> set (take n ps)" "(t1, m1) \<in> set ps" "t1 < (t2::nat)"
  shows "(t1, m1) \<in> set (take n ps)"
proof (rule ccontr)
  assume n: "(t1, m1) \<notin> set (take n ps)"
  have "set ps = set (take n ps) \<union> set (drop n ps)"
    by (simp only: set_append[symmetric] append_take_drop_id)
  with assms(3) n have d: "(t1, m1) \<in> set (drop n ps)" by blast
  from assms(1) have "sorted (map fst (take n ps @ drop n ps))" by simp
  then have "sorted (map fst (take n ps) @ map fst (drop n ps))" by (simp only: map_append)
  then have "\<forall>x \<in> set (map fst (take n ps)). \<forall>y \<in> set (map fst (drop n ps)). x \<le> y"
    by (simp add: sorted_append)
  moreover have "t2 \<in> set (map fst (take n ps))" "t1 \<in> set (map fst (drop n ps))"
    using assms(2) d by (simp_all add: rev_image_eqI)
  ultimately have "t2 \<le> t1" by blast
  with assms(4) show False by simp
qed

lemma sorted_before:
  assumes "sorted (map fst ps)" "(t1, m1) \<in> set ps" "(t2, m2) \<in> set ps" "t1 < (t2::nat)"
  shows "\<exists>pre mid post. ps = pre @ (t1, m1) # mid @ (t2, m2) # post"
proof -
  from assms(3) obtain xs ys where ps: "ps = xs @ (t2, m2) # ys" by (auto simp: in_set_conv_decomp)
  from assms(1) ps have "\<forall>y \<in> set (map fst ys). t2 \<le> y"
    by (auto simp: sorted_append)
  moreover have "(t1, m1) \<in> set ys \<longrightarrow> t1 \<in> set (map fst ys)"
    by (simp add: rev_image_eqI)
  ultimately have "(t1, m1) \<notin> set ys" using assms(4) by fastforce
  moreover from assms(2) ps have "(t1, m1) \<in> set xs \<or> (t1, m1) = (t2, m2) \<or> (t1, m1) \<in> set ys"
    by auto
  ultimately have "(t1, m1) \<in> set xs" using assms(4) by auto
  then obtain pre mid where "xs = pre @ (t1, m1) # mid" by (auto simp: in_set_conv_decomp)
  with ps have "ps = pre @ (t1, m1) # mid @ (t2, m2) # ys" by simp
  then show ?thesis by (intro exI)
qed

lemma pending_page_before:
  assumes "(t2, m2) \<in> set (pending_page n st now)"
    and "m1 \<in> set (media_messages st)" "schedule_time m1 = Some t1"
    and "message_status m1 = ''pending''" "t1 < t2"
  shows "\<exists>pre mid post. map snd (pending_page n st now) = pre @ m1 # mid @ m2 # post"
proof -
  let ?all = "sort_key fst (due_rows now (media_messages st))"
  from pending_page_subset[OF assms(1)] have "t2 \<le> now" by (simp add: due_rows_iff)
  with assms(2-5) have "(t1, m1) \<in> set (due_rows now (media_messages st))"
    by (simp add: due_rows_iff)
  then have in_all: "(t1, m1) \<in> set ?all" by simp
  have s: "sorted (map fst ?all)" by (rule sorted_sort_key)
  from sorted_take_earlier[OF s _ in_all assms(5), of m2 n] assms(1)
  have "(t1, m1) \<in> set (pending_page n st now)" by (simp add: pending_page_def)
  from sorted_before[OF pending_page_sorted this assms(1) assms(5)]
  obtain pre mid post where "pending_page n st now = pre @ (t1, m1) # mid @ (t2, m2) # post"
    by blast
  then have "map snd (pending_page n st now)
      = map snd pre @ m1 # map snd mid @ m2 # map snd post" by simp
  then show ?thesis by (intro exI)
qed
declare sendMessage_from.simps [simp del]

lemma sendMessage_from_store: "w_store (fst (sendMessage_from tr sk jid msg w i)) = w_store w"
proof (induction tr sk jid msg w i rule: sendMessage_from.induct)
  case (1 tr sk jid msg w i)
  show ?case
  proof (cases "i < retries")
    case False
    then show ?thesis by (simp add: sendMessage_from.simps)
  next
    case True
    let ?attempt = "(if \<not> sock_ready sk then (w, None)
                else
                  (w\<lparr>w_sends := Suc (w_sends w),
                     w_trace := w_trace w
                       @ [Attempt jid (TextContent (case msg of None \<Rightarrow> [] | Some t \<Rightarrow> t))]\<rparr>,
                   (case tr (w_sends w) of
                      SendOk (Some wid) \<Rightarrow> if wid = [] then None else Some wid
                    | _ \<Rightarrow> None)))"
    obtain w1 r where a: "?attempt = (w1, r)" by (cases ?attempt)
    then have st1: "w_store w1 = w_store w" by (auto split: if_splits)
    show ?thesis
    proof (cases r)
      case (Some wid)
      with True a st1 show ?thesis
        by (subst sendMessage_from.simps) (simp add: Let_def)
    next
      case None
      let ?w2 = "if i < retries - 1 then sleep (min (1000 * 2 ^ i) 5000) w1 else w1"
      from "1.IH"[OF True refl a[symmetric] None]
      have "w_store (fst (sendMessage_from tr sk jid msg ?w2 (Suc i))) = w_store ?w2" .
      moreover have "w_store ?w2 = w_store w" using st1 by (simp add: sleep_def)
      moreover have "sendMessage_from tr sk jid msg w i = sendMessage_from tr sk jid msg ?w2 (Suc i)"
        using True a None by (subst sendMessage_from.simps) (simp add: Let_def)
      ultimately show ?thesis by simp
    qed
  qed
qed

lemma process_scheduled_dispatch:
  assumes "reachable (w_store (ts_world s))" "process_scheduled tr sk s m = (s', aborted)"
  shows "\<not> aborted \<and> ts_dispatched s' = ts_dispatched s @ [msg_id m]
     \<and> reachable (w_store (ts_world s')) \<and> ts_instances s' = ts_instances s"
proof -
  let ?jid = "formatNumber (recipient m) @ ''@s.whatsapp.net''"
  obtain w1 success wid where sm: "sendMessage tr sk ?jid (message m) (ts_world s) = (w1, success, wid)"
    by (cases "sendMessage tr sk ?jid (message m) (ts_world s)")
  from sm sendMessage_from_store[of tr sk ?jid "message m" "ts_world s" 0]
  have "w_store w1 = w_store (ts_world s)" by (simp add: sendMessage_def)
  with assms(1) have re1: "reachable (w_store w1)" by simp
  then obtain st where u: "updateScheduledMessageStatus (w_store w1) (msg_id m)
       (if success then ''sent'' else ''failed'') wid = Inr st" "reachable st"
    by (cases "truthy wid") (auto simp: updateScheduledMessageStatus_def)
  from assms(2) sm u show ?thesis
    by (auto simp: process_scheduled_def Let_def sleep_def)
qed

lemma process_group_dispatch:
  "reachable (w_store (ts_world s)) \<Longrightarrow> process_group tr sk s ms = (s', aborted) \<Longrightarrow>
   \<not> aborted \<and> ts_dispatched s' = ts_dispatched s @ map msg_id ms
     \<and> reachable (w_store (ts_world s')) \<and> ts_instances s' = ts_instances s"
proof (induction ms arbitrary: s)
  case Nil
  then show ?case by simp
next
  case (Cons m ms)
  obtain s1 a1 where p: "process_scheduled tr sk s m = (s1, a1)"
    by (cases "process_scheduled tr sk s m")
  from process_scheduled_dispatch[OF Cons.prems(1) p]
  have s1: "\<not> a1" "ts_dispatched s1 = ts_dispatched s @ [msg_id m]"
    "reachable (w_store (ts_world s1))" "ts_instances s1 = ts_instances s" by simp_all
  from Cons.prems(2) p s1(1) have "process_group tr sk s1 ms = (s', aborted)" by simp
  from Cons.IH[OF s1(3) this] s1 show ?case by simp
qed

lemma process_instances_dispatch:
  "reachable (w_store (ts_world s)) \<Longrightarrow>
   process_instances connect tr page s ks = (s', aborted) \<Longrightarrow>
   \<exists>ks'. set ks' \<subseteq> set ks
     \<and> ts_dispatched s' = ts_dispatched s
          @ concat (map (\<lambda>k. map msg_id (filter (\<lambda>m. key_of m = k) page)) ks')"
proof (induction ks arbitrary: s)
  case Nil
  then show ?case by simp
next
  case (Cons k ks)
  show ?case
  proof (cases "k = []")
    case True
    with Cons.prems(2) have "process_instances connect tr page s ks = (s', aborted)" by simp
    from Cons.IH[OF Cons.prems(1) this] obtain ks' where "set ks' \<subseteq> set ks"
      "ts_dispatched s' = ts_dispatched s
          @ concat (map (\<lambda>k. map msg_id (filter (\<lambda>m. key_of m = k) page)) ks')" by blast
    then show ?thesis by (intro exI[of _ ks']) auto
  next
    case False
    let ?G = "\<lambda>k. map msg_id (filter (\<lambda>m. key_of m = k) page)"
    have skip: "\<exists>ks'. set ks' \<subseteq> set (k # ks)
         \<and> ts_dispatched s' = ts_dispatched s @ concat (map ?G ks')"
      if re1: "reachable (w_store (ts_world s1))" and d1: "ts_dispatched s1 = ts_dispatched s"
        and rec: "process_instances connect tr page s1 ks = (s', aborted)" for s1
    proof -
      from Cons.IH[OF re1 rec] d1 obtain ks' where "set ks' \<subseteq> set ks"
        "ts_dispatched s' = ts_dispatched s @ concat (map ?G ks')" by auto
      then show ?thesis by (intro exI[of _ ks']) auto
    qed
    have run: "\<exists>ks'. set ks' \<subseteq> set (k # ks)
         \<and> ts_dispatched s' = ts_dispatched s @ concat (map ?G ks')"
      if re1: "reachable (w_store (ts_world s1))" and d1: "ts_dispatched s1 = ts_dispatched s"
        and rec: "(case process_group tr sk s1 (filter (\<lambda>m. key_of m = k) page) of
                     (s2, True) \<Rightarrow> (s2, True)
                   | (s2, False) \<Rightarrow> process_instances connect tr page s2 ks) = (s', aborted)"
      for s1 sk
    proof -
      obtain s2 a2 where g: "process_group tr sk s1 (filter (\<lambda>m. key_of m = k) page) = (s2, a2)"
        by (cases "process_group tr sk s1 (filter (\<lambda>m. key_of m = k) page)")
      from process_group_dispatch[OF re1 g] d1
      have s2: "\<not> a2" "ts_dispatched s2 = ts_dispatched s @ ?G k"
        "reachable (w_store (ts_world s2))" by simp_all
      from rec g s2(1) have "process_instances connect tr page s2 ks = (s', aborted)" by simp
      from Cons.IH[OF s2(3) this] obtain ks' where ks': "set ks' \<subseteq> set ks"
        "ts_dispatched s' = ts_dispatched s2 @ concat (map ?G ks')" by blast
      with s2(2) show ?thesis by (intro exI[of _ "k # ks'"]) auto
    qed
    show ?thesis
    proof (cases "usable (ts_instances s k)")
      case True
      with False Cons.prems(2)
      have "(case process_group tr
                    (case ts_instances s k of None \<Rightarrow> None | Some en \<Rightarrow> entry_sock en)
                    s (filter (\<lambda>m. key_of m = k) page) of
               (s2, True) \<Rightarrow> (s2, True)
             | (s2, False) \<Rightarrow> process_instances connect tr page s2 ks) = (s', aborted)"
        by (simp add: Let_def)
      from run[OF Cons.prems(1) refl this] show ?thesis .
    next
      case nu: False
      let ?s1 = "s\<lparr>ts_instances := snd (connect k (ts_instances s))\<rparr>"
      have re1: "reachable (w_store (ts_world ?s1))" using Cons.prems(1) by simp
      have d1: "ts_dispatched ?s1 = ts_dispatched s" by simp
      show ?thesis
      proof (cases "fst (connect k (ts_instances s)) \<and> usable (snd (connect k (ts_instances s)) k)")
        case True
        with nu False Cons.prems(2)
        have "(case process_group tr
                    (case ts_instances ?s1 k of None \<Rightarrow> None | Some en \<Rightarrow> entry_sock en)
                    ?s1 (filter (\<lambda>m. key_of m = k) page) of
               (s2, True) \<Rightarrow> (s2, True)
             | (s2, False) \<Rightarrow> process_instances connect tr page s2 ks) = (s', aborted)"
          by (simp add: Let_def)
        from run[OF re1 d1 this] show ?thesis .
      next
        case False
        with nu \<open>k \<noteq> []\<close> Cons.prems(2)
        have "process_instances connect tr page ?s1 ks = (s', aborted)"
          by (auto simp: Let_def)
        from skip[OF re1 d1 this] show ?thesis .
      qed
    qed
  qed
qed
text \<open>
  A page that holds a message whose instance id names a member of
  \<open>Object.prototype\<close> ends the tick in its \<open>catch\<close> with nothing dispatched.
\<close>

lemma tick_grouping_throws:
  "reachable (w_store (ts_world s)) \<Longrightarrow>
   grouping_throws (map snd (pending_page 50 (w_store (ts_world s)) (w_now (ts_world s)))) \<Longrightarrow>
   scheduler_tick connect tr s = s"
  by (simp add: scheduler_tick_def getPendingScheduledMessages_def)

lemma tick_dispatch_order:
  assumes re: "reachable (w_store (ts_world s))" and d0: "ts_dispatched s = []"
    and inj: "inj_on msg_id (set (media_messages (w_store (ts_world s))))"
    and m1: "m1 \<in> set (media_messages (w_store (ts_world s)))"
      "schedule_time m1 = Some t1" "message_status m1 = ''pending''"
    and m2: "m2 \<in> set (media_messages (w_store (ts_world s)))" "schedule_time m2 = Some t2"
    and same: "instance_id m1 = instance_id m2" and lt: "t1 < t2"
    and disp: "msg_id m2 \<in> set (ts_dispatched (scheduler_tick connect tr s))"
  shows "\<exists>pre mid post. ts_dispatched (scheduler_tick connect tr s)
           = pre @ msg_id m1 # mid @ msg_id m2 # post"
proof -
  let ?st = "w_store (ts_world s)"
  let ?now = "w_now (ts_world s)"
  let ?pp = "pending_page 50 ?st ?now"
  let ?page = "map snd ?pp"
  let ?G = "\<lambda>k. map msg_id (filter (\<lambda>m. key_of m = k) ?page)"
  have ne: "?page \<noteq> []"
  proof
    assume "?page = []"
    with re have "scheduler_tick connect tr s = s"
      by (simp add: scheduler_tick_def getPendingScheduledMessages_def)
    with disp d0 show False by simp
  qed
  have nt: "\<not> grouping_throws ?page"
  proof
    assume "grouping_throws ?page"
    with re have "scheduler_tick connect tr s = s"
      by (simp add: scheduler_tick_def getPendingScheduledMessages_def)
    with disp d0 show False by simp
  qed
  obtain s' aborted where pi: "process_instances connect tr ?page s (entries_order (map key_of ?page))
      = (s', aborted)"
    by (cases "process_instances connect tr ?page s (entries_order (map key_of ?page))")
  with re ne nt have tick: "scheduler_tick connect tr s = s'"
    by (simp add: scheduler_tick_def getPendingScheduledMessages_def)
  from process_instances_dispatch[OF re pi] d0 obtain ks' where
    ds: "ts_dispatched s' = concat (map ?G ks')" by auto
  from disp tick ds obtain k where k: "k \<in> set ks'" "msg_id m2 \<in> set (?G k)" by auto
  from k(2) obtain m' where f: "m' \<in> set (filter (\<lambda>m. key_of m = k) ?page)"
    and i2: "msg_id m2 = msg_id m'"
    unfolding set_map by (rule imageE)
  from f have m': "m' \<in> set ?page" "key_of m' = k" by (simp_all only: set_filter mem_Collect_eq)
  from i2 have m'3: "msg_id m' = msg_id m2" by simp
  from m'(1) obtain p where p: "p \<in> set ?pp" "m' = snd p"
    unfolding set_map by (rule imageE)
  then have t': "(fst p, m') \<in> set ?pp" by simp
  from pending_page_subset[OF t'] have due: "m' \<in> set (media_messages ?st)"
    "schedule_time m' = Some (fst p)" by (simp_all add: due_rows_iff)
  from inj m'3 due(1) m2(1) have eq: "m' = m2" by (rule inj_onD)
  with due(2) m2(2) have "fst p = t2" by simp
  with t' eq have in2: "(t2, m2) \<in> set ?pp" by simp
  from pending_page_before[OF in2 m1 lt] obtain pre mid post where
    page: "?page = pre @ m1 # mid @ m2 # post" by blast
  from same have "key_of m1 = key_of m2" by (simp add: key_of_def)
  with m'(2) eq have k1: "key_of m1 = k" and k2: "key_of m2 = k" by simp_all
  have G: "?G k = map msg_id (filter (\<lambda>m. key_of m = k) pre) @ msg_id m1
        # map msg_id (filter (\<lambda>m. key_of m = k) mid) @ msg_id m2
        # map msg_id (filter (\<lambda>m. key_of m = k) post)"
    by (simp only: page) (simp add: k1 k2)
  from k(1) obtain A B where "ks' = A @ k # B" by (auto simp: in_set_conv_decomp)
  then have "concat (map ?G ks') = concat (map ?G A) @ ?G k @ concat (map ?G B)" by simp
  with G have "concat (map ?G ks')
      = (concat (map ?G A) @ map msg_id (filter (\<lambda>m. key_of m = k) pre)) @ msg_id m1
        # map msg_id (filter (\<lambda>m. key_of m = k) mid) @ msg_id m2
        # (map msg_id (filter (\<lambda>m. key_of m = k) post) @ concat (map ?G B))"
    by simp
  with tick ds show ?thesis by (simp only:) (intro exI, rule refl)
qed

text \<open>
  C7. The page a sweep selects has at most the page size (50, or 10 in the earlier
  version of the file), holds only stored messages that are pending with a schedule time
  not after now, and is in ascending order of schedule time. Within one sweep on a
  reachable store whose message ids are unique, for two pending messages of the same
  instance with schedule times \<open>t1 < t2\<close>: if the send attempt of the later one is
  dispatched in the sweep, the send attempt of the earlier one is dispatched before it.
\<close>

theorem C7_page_and_dispatch_order:
  "length (pending_page n st now) \<le> n
   \<and> sorted (map fst (pending_page n st now))
   \<and> (\<forall>(t, m) \<in> set (pending_page n st now).
         m \<in> set (media_messages st) \<and> schedule_time m = Some t
         \<and> message_status m = ''pending'' \<and> t \<le> now)
   \<and> (reachable st \<longrightarrow>
         getPendingScheduledMessages st now = Inr (map snd (pending_page 50 st now))
         \<and> getPendingScheduledMessages_legacy st now = Inr (map snd (pending_page 10 st now)))
   \<and> (reachable (w_store (ts_world s)) \<and> ts_dispatched s = []
        \<and> inj_on msg_id (set (media_messages (w_store (ts_world s))))
        \<and> m1 \<in> set (media_messages (w_store (ts_world s)))
        \<and> schedule_time m1 = Some t1 \<and> message_status m1 = ''pending''
        \<and> m2 \<in> set (media_messages (w_store (ts_world s))) \<and> schedule_time m2 = Some t2
        \<and> instance_id m1 = instance_id m2 \<and> t1 < t2
        \<and> msg_id m2 \<in> set (ts_dispatched (scheduler_tick connect tr s))
      \<longrightarrow> (\<exists>pre mid post. ts_dispatched (scheduler_tick connect tr s)
                             = pre @ msg_id m1 # mid @ msg_id m2 # post))"
proof -
  have a: "\<forall>(t, m) \<in> set (pending_page n st now).
         m \<in> set (media_messages st) \<and> schedule_time m = Some t
         \<and> message_status m = ''pending'' \<and> t \<le> now"
    using pending_page_subset[of _ _ n st now] by (auto simp: due_rows_iff)
  have b: "reachable st \<longrightarrow>
         getPendingScheduledMessages st now = Inr (map snd (pending_page 50 st now))
         \<and> getPendingScheduledMessages_legacy st now = Inr (map snd (pending_page 10 st now))"
    by (simp add: getPendingScheduledMessages_def getPendingScheduledMessages_legacy_def)
  have c: "reachable (w_store (ts_world s)) \<and> ts_dispatched s = []
        \<and> inj_on msg_id (set (media_messages (w_store (ts_world s))))
        \<and> m1 \<in> set (media_messages (w_store (ts_world s)))
        \<and> schedule_time m1 = Some t1 \<and> message_status m1 = ''pending''
        \<and> m2 \<in> set (media_messages (w_store (ts_world s))) \<and> schedule_time m2 = Some t2
        \<and> instance_id m1 = instance_id m2 \<and> t1 < t2
        \<and> msg_id m2 \<in> set (ts_dispatched (scheduler_tick connect tr s))
      \<longrightarrow> (\<exists>pre mid post. ts_dispatched (scheduler_tick connect tr s)
                             = pre @ msg_id m1 # mid @ msg_id m2 # post)"
    using tick_dispatch_order[of s m1 t1 m2 t2 connect tr] by blast
  from pending_page_length[of n st now] pending_page_sorted[of n st now] a b c
  show ?thesis by blast
qed
lemma ex_tick_run:
  "ts_dispatched (scheduler_tick (\<lambda>i r. (False, r)) (\<lambda>n. SendOk (Some ''WID'')) ex_tick_state) = [2, 1]"
  by (simp add: scheduler_tick_def getPendingScheduledMessages_def pending_page_def due_rows_def
      grouping_throws_def Object_prototype_names_def
      ex_tick_state_def ex_late_def ex_early_def ex_sock_def entries_order_def key_of_def
      is_array_index_def is_digit_def usable_def process_scheduled_def sendMessage_def
      sendMessage_from.simps retries_def sock_ready_def updateScheduledMessageStatus_def
      truthy_def formatNumber_def is_space_def sleep_def Let_def)

theorem C7_page_and_dispatch_order_witness:
  "reachable (w_store (ts_world ex_tick_state)) \<and> ts_dispatched ex_tick_state = []
   \<and> inj_on msg_id (set (media_messages (w_store (ts_world ex_tick_state))))
   \<and> instance_id ex_early = instance_id ex_late
   \<and> schedule_time ex_early = Some 2000 \<and> schedule_time ex_late = Some 3000
   \<and> msg_id ex_late \<in> set (ts_dispatched (scheduler_tick (\<lambda>i r. (False, r))
                                   (\<lambda>n. SendOk (Some ''WID'')) ex_tick_state))
   \<and> (\<exists>pre mid post. ts_dispatched (scheduler_tick (\<lambda>i r. (False, r))
                                   (\<lambda>n. SendOk (Some ''WID'')) ex_tick_state)
          = pre @ msg_id ex_early # mid @ msg_id ex_late # post)
   \<and> length (pending_page 50 (w_store (ts_world ex_tick_state)) 5000) \<le> 50"
proof -
  have h: "reachable (w_store (ts_world ex_tick_state))" "ts_dispatched ex_tick_state = []"
    "inj_on msg_id (set (media_messages (w_store (ts_world ex_tick_state))))"
    "ex_early \<in> set (media_messages (w_store (ts_world ex_tick_state)))"
    "ex_late \<in> set (media_messages (w_store (ts_world ex_tick_state)))"
    "schedule_time ex_early = Some 2000" "message_status ex_early = ''pending''"
    "schedule_time ex_late = Some 3000" "instance_id ex_early = instance_id ex_late"
    by (simp_all add: ex_tick_state_def ex_late_def ex_early_def)
  have d: "msg_id ex_late \<in> set (ts_dispatched (scheduler_tick (\<lambda>i r. (False, r))
                                   (\<lambda>n. SendOk (Some ''WID'')) ex_tick_state))"
    by (simp add: ex_tick_run) (simp add: ex_late_def)
  have lt: "(2000::nat) < 3000" by simp
  from C7_page_and_dispatch_order[where s = ex_tick_state and ?m1.0 = ex_early and ?t1.0 = 2000
      and ?m2.0 = ex_late and ?t2.0 = 3000 and connect = "\<lambda>i r. (False, r)"
      and tr = "\<lambda>n. SendOk (Some ''WID'')" and n = 50
      and st = "w_store (ts_world ex_tick_state)" and now = 5000] h d lt
  show ?thesis by blast
qed

section \<open>The delivery timeline is write-once\<close>

subsection \<open>The guarded writer of the status-tracking handlers\<close>

















subsection \<open>The writers of messages.js, as the send pipeline calls them\<close>













subsection \<open>The property\<close>





end
